theory Spec2Isabelle
  imports Main "HOL-Library.AList"
begin

section \<open>Python values shared by all modules\<close>

text \<open>
  Exceptions are values. Every exception of the model is an instance of Python's
  \<open>Exception\<close>, so an \<open>except Exception\<close> clause catches each of them; \<open>exn_msg\<close> is
  \<open>str(e)\<close>.
\<close>

datatype exn_class =
    FileNotFoundError | FileExistsError | IsADirectoryError | OSError
  | ValueError | ParserError | RemoteError | UnicodeEncodeError

datatype exn = Raise exn_class string

fun exn_class_of :: "exn \<Rightarrow> exn_class" where
  "exn_class_of (Raise c m) = c"

fun exn_msg :: "exn \<Rightarrow> string" where
  "exn_msg (Raise c m) = m"

text \<open>\<open>str(n)\<close> for a Python int: decimal digits, a leading minus sign when negative.\<close>

definition digit_char :: "nat \<Rightarrow> char" where
  "digit_char d = ''0123456789'' ! d"

function str_nat :: "nat \<Rightarrow> string" where
  "str_nat n = (if n < 10 then [digit_char n] else str_nat (n div 10) @ [digit_char (n mod 10)])"
  by pat_completeness auto
termination
  by (relation "measure id") auto

declare str_nat.simps [simp del]

definition str_int :: "int \<Rightarrow> string" where
  "str_int i = (if i < 0 then CHR ''-'' # str_nat (nat (- i)) else str_nat (nat i))"

text \<open>\<open>s.endswith(suffix)\<close>.\<close>

definition endswith :: "string \<Rightarrow> string \<Rightarrow> bool" where
  "endswith s suf = (take (length suf) (rev s) = rev suf)"

section \<open>utils/seeding.py\<close>

text \<open>
  The interpreter state the seeding utilities write: the seed last given to each
  generator, the two cuDNN flags, and \<open>os.environ\<close>. \<open>py_hash\<close> is the built-in
  \<open>hash\<close> on strings, fixed for the life of the process; \<open>hash_calls\<close> is a ghost
  counter of its evaluations. The TensorFlow and PyTorch calls are external: whether one
  of them raises for a given seed is the oracle \<open>backend_fault\<close>.
\<close>

datatype backend_call =
    TfSetSeed | TfV1SetSeed | TorchManualSeed | TorchCudaSeed | TorchCudaSeedAll
  | CudnnDeterministic | CudnnBenchmark

record runtime =
  random_state :: "int option"
  numpy_state :: "int option"
  backend_seed :: "backend_call \<Rightarrow> int option"
  cudnn_deterministic :: "bool option"
  cudnn_benchmark :: "bool option"
  environ :: "string \<Rightarrow> string option"
  backend_fault :: "backend_call \<Rightarrow> int \<Rightarrow> exn option"
  py_hash :: "string \<Rightarrow> int"
  hash_calls :: nat

text \<open>A statement either completes or raises; the state it reached is returned in both cases.\<close>

type_synonym stmt = "runtime \<Rightarrow> exn option \<times> runtime"

text \<open>\<open>random.seed(seed)\<close> accepts every int.\<close>

definition random_seed :: "int \<Rightarrow> stmt" where
  "random_seed seed r = (None, r\<lparr>random_state := Some seed\<rparr>)"

text \<open>
  \<open>np.random.seed(seed)\<close>: NumPy's legacy seeding takes an int between 0 and
  \<open>2**32 - 1\<close> and raises \<open>ValueError\<close> for any other int.
\<close>

definition np_random_seed :: "int \<Rightarrow> stmt" where
  "np_random_seed seed r =
     (if 0 \<le> seed \<and> seed \<le> 2 ^ 32 - 1 then (None, r\<lparr>numpy_state := Some seed\<rparr>)
      else (Some (Raise ValueError ''Seed must be between 0 and 2**32 - 1''), r))"

definition backend_set_seed :: "backend_call \<Rightarrow> int \<Rightarrow> stmt" where
  "backend_set_seed c seed r =
     (case backend_fault r c seed of
        Some e \<Rightarrow> (Some e, r)
      | None \<Rightarrow> (None, r\<lparr>backend_seed := (backend_seed r)(c := Some seed)\<rparr>))"

definition set_cudnn_deterministic :: "bool \<Rightarrow> int \<Rightarrow> stmt" where
  "set_cudnn_deterministic b seed r =
     (case backend_fault r CudnnDeterministic seed of
        Some e \<Rightarrow> (Some e, r)
      | None \<Rightarrow> (None, r\<lparr>cudnn_deterministic := Some b\<rparr>))"

definition set_cudnn_benchmark :: "bool \<Rightarrow> int \<Rightarrow> stmt" where
  "set_cudnn_benchmark b seed r =
     (case backend_fault r CudnnBenchmark seed of
        Some e \<Rightarrow> (Some e, r)
      | None \<Rightarrow> (None, r\<lparr>cudnn_benchmark := Some b\<rparr>))"

text \<open>
  \<open>try: s1; s2; ... except Exception: pass\<close>: the statements run in order, the first
  one that raises ends the block, and the exception is dropped.
\<close>

fun try_pass :: "stmt list \<Rightarrow> runtime \<Rightarrow> runtime" where
  "try_pass [] r = r"
| "try_pass (s # ss) r = (case s r of (Some e, r') \<Rightarrow> r' | (None, r') \<Rightarrow> try_pass ss r')"

definition set_env :: "string \<Rightarrow> string \<Rightarrow> runtime \<Rightarrow> runtime" where
  "set_env k v r = r\<lparr>environ := (environ r)(k := Some v)\<rparr>"

definition set_random_seed :: "int \<Rightarrow> stmt" where
  "set_random_seed seed r =
     (case random_seed seed r of
        (Some e, r1) \<Rightarrow> (Some e, r1)
      | (None, r1) \<Rightarrow>
     (case np_random_seed seed r1 of
        (Some e, r2) \<Rightarrow> (Some e, r2)
      | (None, r2) \<Rightarrow>
     (let r3 = try_pass [backend_set_seed TfSetSeed seed, backend_set_seed TfV1SetSeed seed] r2;
          r4 = try_pass [backend_set_seed TorchManualSeed seed,
                         backend_set_seed TorchCudaSeed seed,
                         backend_set_seed TorchCudaSeedAll seed,
                         set_cudnn_deterministic True seed,
                         set_cudnn_benchmark False seed] r3;
          r5 = set_env ''PYTHONHASHSEED'' (str_int seed) r4;
          r6 = set_env ''TF_DETERMINISTIC_OPS'' ''1'' r5
      in (None, r6))))"

subsection \<open>SeedManager\<close>

text \<open>
  The attributes of the one \<open>SeedManager\<close> object. The class attribute \<open>_instance\<close> is a
  \<open>seed_manager option\<close>: \<open>None\<close> until the first construction.
\<close>

record seed_manager =
  sm_seed :: int
  sm_experiment_seeds :: "string \<Rightarrow> int option"

text \<open>
  \<open>__new__\<close> returns the stored instance, or a new object (which sees the class
  attribute \<open>_seed = 42\<close>) when there is none.
\<close>

definition SeedManager_new :: "seed_manager option \<Rightarrow> seed_manager" where
  "SeedManager_new inst =
     (case inst of None \<Rightarrow> \<lparr>sm_seed = 42, sm_experiment_seeds = Map.empty\<rparr> | Some m \<Rightarrow> m)"

definition SeedManager_init :: "seed_manager \<Rightarrow> seed_manager" where
  "SeedManager_init m = m\<lparr>sm_seed := 42, sm_experiment_seeds := Map.empty\<rparr>"

text \<open>
  The call \<open>SeedManager()\<close>: Python runs \<open>__new__\<close> and then \<open>__init__\<close> on the object
  \<open>__new__\<close> returned, on every call. The result is the object and the new value of
  \<open>_instance\<close>.
\<close>

definition SeedManager_call :: "seed_manager option \<Rightarrow> seed_manager \<times> seed_manager option" where
  "SeedManager_call inst = (let m = SeedManager_init (SeedManager_new inst) in (m, Some m))"

definition set_seed :: "seed_manager \<Rightarrow> int \<Rightarrow> runtime \<Rightarrow> exn option \<times> seed_manager \<times> runtime" where
  "set_seed m seed r =
     (let m' = m\<lparr>sm_seed := seed\<rparr>; (e, r') = set_random_seed seed r in (e, m', r'))"

definition get_seed :: "seed_manager \<Rightarrow> int" where
  "get_seed m = sm_seed m"

definition create_experiment_seed ::
  "seed_manager \<Rightarrow> string \<Rightarrow> runtime \<Rightarrow> int \<times> seed_manager \<times> runtime" where
  "create_experiment_seed m experiment_name r =
     (let experiment_seed =
            py_hash r (experiment_name @ ''_'' @ str_int (sm_seed m)) mod (2 ^ 32 - 1);
          r' = r\<lparr>hash_calls := hash_calls r + 1\<rparr>;
          m' = m\<lparr>sm_experiment_seeds :=
                    (sm_experiment_seeds m)(experiment_name := Some experiment_seed)\<rparr>
      in (experiment_seed, m', r'))"

text \<open>
  \<open>self._experiment_seeds.get(name, self.create_experiment_seed(name))\<close>: the argument
  is evaluated before \<open>get\<close> runs, so \<open>create_experiment_seed\<close> is called first and
  \<open>get\<close> looks the name up in the dictionary it has just written.
\<close>

definition get_experiment_seed ::
  "seed_manager \<Rightarrow> string \<Rightarrow> runtime \<Rightarrow> int \<times> seed_manager \<times> runtime" where
  "get_experiment_seed m experiment_name r =
     (case create_experiment_seed m experiment_name r of
        (dflt, m', r') \<Rightarrow>
          (case sm_experiment_seeds m' experiment_name of
             Some v \<Rightarrow> (v, m', r')
           | None \<Rightarrow> (dflt, m', r')))"

definition reset :: "seed_manager \<Rightarrow> runtime \<Rightarrow> exn option \<times> seed_manager \<times> runtime" where
  "reset m r =
     (let m' = m\<lparr>sm_seed := 42, sm_experiment_seeds := Map.empty\<rparr>;
          (e, r') = set_random_seed 42 r
      in (e, m', r'))"

record repro_config =
  cfg_seed :: int
  cfg_torch_available :: bool
  cfg_tensorflow_available :: bool
  cfg_numpy_available :: bool
  cfg_python_hashseed :: string
  cfg_deterministic_ops :: string

definition environ_get :: "runtime \<Rightarrow> string \<Rightarrow> string \<Rightarrow> string" where
  "environ_get r k dflt = (case environ r k of Some v \<Rightarrow> v | None \<Rightarrow> dflt)"

definition get_reproducible_config ::
  "seed_manager option \<Rightarrow> runtime \<Rightarrow> repro_config \<times> seed_manager option" where
  "get_reproducible_config inst r =
     (case SeedManager_call inst of
        (m, inst') \<Rightarrow>
          (\<lparr>cfg_seed = get_seed m,
            cfg_torch_available = True,
            cfg_tensorflow_available = True,
            cfg_numpy_available = True,
            cfg_python_hashseed = environ_get r ''PYTHONHASHSEED'' ''not set'',
            cfg_deterministic_ops = environ_get r ''TF_DETERMINISTIC_OPS'' ''not set''\<rparr>,
           inst'))"

text \<open>A runtime in which every backend works, nothing is seeded and \<open>hash\<close> is the
  length of the string: the concrete input of the closed theorems below.\<close>

definition runtime0 :: runtime where
  "runtime0 =
     \<lparr>random_state = None, numpy_state = None, backend_seed = (\<lambda>c. None),
      cudnn_deterministic = None, cudnn_benchmark = None, environ = Map.empty,
      backend_fault = (\<lambda>c s. None), py_hash = (\<lambda>s. int (length s)), hash_calls = 0\<rparr>"

section \<open>The world outside the program\<close>

text \<open>
  \<open>datetime.now()\<close> returns a calendar date and a time of day. \<open>strftime\<close> writes the
  year with four digits and every other field with two.
\<close>

record datetime =
  dt_year :: nat
  dt_month :: nat
  dt_day :: nat
  dt_hour :: nat
  dt_minute :: nat
  dt_second :: nat

definition zfill :: "nat \<Rightarrow> string \<Rightarrow> string" where
  "zfill k s = replicate (k - length s) CHR ''0'' @ s"

text \<open>\<open>strftime("%Y%m%d")\<close> and \<open>strftime("%Y%m%d_%H%M%S")\<close>.\<close>

definition strftime_Ymd :: "datetime \<Rightarrow> string" where
  "strftime_Ymd t =
     zfill 4 (str_nat (dt_year t)) @ zfill 2 (str_nat (dt_month t)) @ zfill 2 (str_nat (dt_day t))"

definition strftime_Ymd_HMS :: "datetime \<Rightarrow> string" where
  "strftime_Ymd_HMS t =
     strftime_Ymd t @ ''_'' @ zfill 2 (str_nat (dt_hour t)) @ zfill 2 (str_nat (dt_minute t))
       @ zfill 2 (str_nat (dt_second t))"

text \<open>
  A pandas \<open>DataFrame\<close>: the name of its index (\<open>None\<close> when it has none), the index
  values, and the columns in order, each a name and its values. Cell values are kept as
  text; how \<open>to_csv\<close> renders floats and dates is left to pandas.
\<close>

record dataframe =
  index_name :: "string option"
  index_values :: "string list"
  columns :: "(string \<times> string list) list"

definition df_empty :: "dataframe \<Rightarrow> bool" where
  "df_empty df = (index_values df = [] \<or> columns df = [])"

definition df_len :: "dataframe \<Rightarrow> nat" where
  "df_len df = length (index_values df)"

definition column_names :: "dataframe \<Rightarrow> string list" where
  "column_names df = map fst (columns df)"

text \<open>
  \<open>df.reset_index(inplace=True)\<close>: the index becomes the first column, under the
  index's name (\<open>index\<close> for a nameless index, \<open>level_0\<close> when that is taken), and the
  frame gets a nameless counting index. pandas raises \<open>ValueError\<close> when a column of
  that name exists.
\<close>

definition reset_index :: "dataframe \<Rightarrow> exn + dataframe" where
  "reset_index df =
     (let n = (case index_name df of
                 Some n \<Rightarrow> n
               | None \<Rightarrow> if ''index'' \<in> set (column_names df) then ''level_0'' else ''index'')
      in if n \<in> set (column_names df)
         then Inl (Raise ValueError (''cannot insert '' @ n @ '', already exists''))
         else Inr \<lparr>index_name = None,
                   index_values = map str_nat [0 ..< length (index_values df)],
                   columns = (n, index_values df) # columns df\<rparr>)"

text \<open>What a path of the file system holds.\<close>

datatype node =
    Directory
  | CsvFile "(string \<times> string list) list"
  | ExcelFile "(string \<times> (string \<times> string list) list) list"
  | RawFile string

datatype handler = StreamHandler nat | FileHandler nat string

datatype level = DEBUG | INFO | WARNING | ERROR

fun level_no :: "level \<Rightarrow> nat" where
  "level_no DEBUG = 10"
| "level_no INFO = 20"
| "level_no WARNING = 30"
| "level_no ERROR = 40"

record log_record =
  lr_name :: string
  lr_level :: level
  lr_message :: string

text \<open>
  Everything outside the program that it reads or writes. The oracles are fixed during
  a run: \<open>remote\<close> is the data provider (\<open>yf.Ticker(ticker).history(period, interval)\<close>,
  a frame or an exception), \<open>clock\<close> gives the successive readings of the wall clock,
  \<open>mkdir_fault\<close> and \<open>write_fault\<close> say for which paths creating a directory or opening
  a file for writing raises, \<open>parse_csv\<close> is pandas' parser on a file's text,
  \<open>print_fault\<close> says for which lines writing to standard output raises (a character
  the stream cannot encode, a closed or broken stream),
  \<open>abspath\<close> is \<open>os.path.abspath\<close>, and \<open>windows\<close> is the module constant \<open>WINDOWS\<close>.
  The state: the number of clock readings made, the file system, the handlers and level
  of each named logger of the \<open>logging\<close> module, the records sent to the console, the
  records appended to each log file, and the lines printed.
\<close>

record world =
  remote :: "string \<Rightarrow> string \<Rightarrow> string \<Rightarrow> exn + dataframe"
  clock :: "nat \<Rightarrow> datetime"
  mkdir_fault :: "string \<Rightarrow> exn option"
  write_fault :: "string \<Rightarrow> exn option"
  parse_csv :: "string \<Rightarrow> string + (string \<times> string list) list"
  print_fault :: "string \<Rightarrow> exn option"
  abspath :: "string \<Rightarrow> string"
  windows :: bool
  clock_reads :: nat
  files :: "string \<Rightarrow> node option"
  handlers :: "string \<Rightarrow> handler list"
  logger_level :: "string \<Rightarrow> nat"
  console :: "log_record list"
  logfiles :: "string \<Rightarrow> log_record list"
  stdout :: "string list"

definition now :: "world \<Rightarrow> datetime \<times> world" where
  "now w = (clock w (clock_reads w), w\<lparr>clock_reads := clock_reads w + 1\<rparr>)"

text \<open>\<open>os.makedirs(path, exist_ok=True)\<close>.\<close>

definition makedirs :: "string \<Rightarrow> world \<Rightarrow> exn option \<times> world" where
  "makedirs path w =
     (case mkdir_fault w path of
        Some e \<Rightarrow> (Some e, w)
      | None \<Rightarrow>
          (case files w path of
             None \<Rightarrow> (None, w\<lparr>files := (files w)(path := Some Directory)\<rparr>)
           | Some Directory \<Rightarrow> (None, w)
           | Some _ \<Rightarrow> (Some (Raise FileExistsError (''File exists: '' @ path)), w)))"

text \<open>\<open>os.path.join(a, b)\<close> and \<open>os.path.basename(p)\<close> of \<open>posixpath\<close>.\<close>

definition posix_join :: "string \<Rightarrow> string \<Rightarrow> string" where
  "posix_join a b =
     (if take 1 b = ''/'' then b
      else if a = [] \<or> endswith a ''/'' then a @ b
      else a @ ''/'' @ b)"

definition basename :: "string \<Rightarrow> string" where
  "basename p = rev (takeWhile (\<lambda>c. c \<noteq> CHR ''/'') (rev p))"

section \<open>utils/io.py\<close>

definition create_output_directory :: "string \<Rightarrow> world \<Rightarrow> (exn + string) \<times> world" where
  "create_output_directory output_dir w =
     (case makedirs output_dir w of
        (Some e, w') \<Rightarrow> (Inl e, w')
      | (None, w') \<Rightarrow> (Inr (abspath w' output_dir), w'))"

definition generate_filename ::
  "string \<Rightarrow> string \<Rightarrow> string option \<Rightarrow> world \<Rightarrow> string \<times> world" where
  "generate_filename ticker period custom_filename w =
     (case custom_filename of
        Some c \<Rightarrow> (if endswith c ''.csv'' then c else c @ ''.csv'', w)
      | None \<Rightarrow>
          (case now w of
             (t, w') \<Rightarrow> (ticker @ ''_'' @ period @ ''_'' @ strftime_Ymd_HMS t @ ''.csv'', w')))"

text \<open>
  \<open>df.to_csv(filepath, index=False, ...)\<close>: the file holds the columns of the frame
  and nothing of its index.
\<close>

definition to_csv :: "dataframe \<Rightarrow> string \<Rightarrow> world \<Rightarrow> exn option \<times> world" where
  "to_csv df filepath w =
     (case write_fault w filepath of
        Some e \<Rightarrow> (Some e, w)
      | None \<Rightarrow>
          (case files w filepath of
             Some Directory \<Rightarrow> (Some (Raise IsADirectoryError (''Is a directory: '' @ filepath)), w)
           | _ \<Rightarrow> (None, w\<lparr>files := (files w)(filepath := Some (CsvFile (columns df)))\<rparr>)))"

text \<open>Python's truth value of \<open>index.name\<close>: \<open>None\<close> and the empty string are false.\<close>

definition name_truthy :: "string option \<Rightarrow> bool" where
  "name_truthy n = (case n of None \<Rightarrow> False | Some s \<Rightarrow> s \<noteq> [])"

definition save_dataframe_to_csv ::
  "dataframe \<Rightarrow> string \<Rightarrow> string \<Rightarrow> string \<Rightarrow> string option \<Rightarrow> world \<Rightarrow> (exn + string) \<times> world" where
  "save_dataframe_to_csv df ticker period output_dir filename w =
     (case create_output_directory output_dir w of
        (Inl e, w1) \<Rightarrow> (Inl e, w1)
      | (Inr output_path, w1) \<Rightarrow>
     (case generate_filename ticker period filename w1 of
        (csv_filename, w2) \<Rightarrow>
     (let filepath = posix_join output_path csv_filename in
      case (if name_truthy (index_name df) then reset_index df else Inr df) of
        Inl e \<Rightarrow> (Inl e, w2)
      | Inr df_to_save \<Rightarrow>
          (case to_csv df_to_save filepath w2 of
             (Some e, w3) \<Rightarrow> (Inl e, w3)
           | (None, w3) \<Rightarrow> (Inr filepath, w3)))))"

text \<open>
  One workbook with one sheet per entry of the dictionary, named by its key and holding
  the frame's columns (\<open>index=False\<close>).
\<close>

definition save_multiple_stocks_to_excel ::
  "(string \<times> dataframe) list \<Rightarrow> string \<Rightarrow> string \<Rightarrow> world \<Rightarrow> (exn + string) \<times> world" where
  "save_multiple_stocks_to_excel stocks_dict output_filepath output_dir w =
     (case create_output_directory output_dir w of
        (Inl e, w1) \<Rightarrow> (Inl e, w1)
      | (Inr output_path, w1) \<Rightarrow>
     (let full_filepath = posix_join output_path output_filepath in
      case write_fault w1 full_filepath of
        Some e \<Rightarrow> (Inl e, w1)
      | None \<Rightarrow>
          (Inr full_filepath,
           w1\<lparr>files := (files w1)(full_filepath :=
                 Some (ExcelFile (map (\<lambda>(ticker, df). (ticker, columns df)) stocks_dict)))\<rparr>)))"

definition path_exists :: "world \<Rightarrow> string \<Rightarrow> bool" where
  "path_exists w p = (files w p \<noteq> None)"

text \<open>
  \<open>pd.read_csv(filepath)\<close> on a path that exists: a CSV file written by \<open>to_csv\<close> reads
  back as its columns under a counting index; any other text goes through the parser,
  whose failures are parser errors; a directory cannot be opened.
\<close>

definition frame_of_columns :: "(string \<times> string list) list \<Rightarrow> exn + dataframe" where
  "frame_of_columns cols =
     (case cols of
        [] \<Rightarrow> Inl (Raise ParserError ''No columns to parse from file'')
      | c # cs \<Rightarrow> Inr \<lparr>index_name = None,
                        index_values = map str_nat [0 ..< length (snd c)],
                        columns = cols\<rparr>)"

definition read_csv :: "world \<Rightarrow> string \<Rightarrow> exn + dataframe" where
  "read_csv w filepath =
     (case files w filepath of
        None \<Rightarrow> Inl (Raise FileNotFoundError (''No such file or directory: '' @ filepath))
      | Some Directory \<Rightarrow> Inl (Raise IsADirectoryError (''Is a directory: '' @ filepath))
      | Some (CsvFile cols) \<Rightarrow> frame_of_columns cols
      | Some (ExcelFile sheets) \<Rightarrow> Inl (Raise ParserError ''Error tokenizing data'')
      | Some (RawFile text) \<Rightarrow>
          (case parse_csv w text of
             Inl msg \<Rightarrow> Inl (Raise ParserError msg)
           | Inr cols \<Rightarrow> frame_of_columns cols))"

definition load_csv_data :: "world \<Rightarrow> string \<Rightarrow> exn + dataframe" where
  "load_csv_data w filepath =
     (if \<not> path_exists w filepath
      then Inl (Raise FileNotFoundError (''File not found: '' @ filepath))
      else read_csv w filepath)"

text \<open>The file information without the two fields taken from \<open>os.stat\<close>.\<close>

record file_info =
  fi_filename :: string
  fi_filepath :: string
  fi_rows :: nat
  fi_columns :: nat
  fi_column_names :: "string list"

definition get_data_file_info :: "world \<Rightarrow> string \<Rightarrow> exn + file_info" where
  "get_data_file_info w filepath =
     (if \<not> path_exists w filepath
      then Inl (Raise FileNotFoundError (''File not found: '' @ filepath))
      else (case read_csv w filepath of
              Inl e \<Rightarrow> Inl e
            | Inr df \<Rightarrow>
                Inr \<lparr>fi_filename = basename filepath,
                     fi_filepath = filepath,
                     fi_rows = df_len df,
                     fi_columns = length (columns df),
                     fi_column_names = column_names df\<rparr>))"

section \<open>utils/logger.py\<close>

text \<open>
  The \<open>logging\<close> module: a record sent through a named logger passes the logger's
  level and is then handled by each of the logger's handlers whose own level it reaches;
  a stream handler writes it to the console, a file handler appends it to its file.
  A handler that fails reports to \<open>stderr\<close> and returns (\<open>Handler.handleError\<close>),
  so logging a record never raises.
\<close>

definition handle :: "log_record \<Rightarrow> world \<Rightarrow> handler \<Rightarrow> world" where
  "handle rec w h =
     (case h of
        StreamHandler lv \<Rightarrow>
          if lv \<le> level_no (lr_level rec) then w\<lparr>console := console w @ [rec]\<rparr> else w
      | FileHandler lv p \<Rightarrow>
          if lv \<le> level_no (lr_level rec)
          then w\<lparr>logfiles := (logfiles w)(p := logfiles w p @ [rec])\<rparr> else w)"

definition log_emit :: "string \<Rightarrow> level \<Rightarrow> string \<Rightarrow> world \<Rightarrow> world" where
  "log_emit name lv msg w =
     (if logger_level w name \<le> level_no lv
      then foldl (handle \<lparr>lr_name = name, lr_level = lv, lr_message = msg\<rparr>) w (handlers w name)
      else w)"

definition add_handler :: "string \<Rightarrow> handler \<Rightarrow> world \<Rightarrow> world" where
  "add_handler name h w = w\<lparr>handlers := (handlers w)(name := handlers w name @ [h])\<rparr>"

text \<open>\<open>logging.FileHandler(log_file)\<close> opens the file for appending when it is built.\<close>

definition open_log_file :: "string \<Rightarrow> world \<Rightarrow> exn option" where
  "open_log_file log_file w =
     (case write_fault w log_file of
        Some e \<Rightarrow> Some e
      | None \<Rightarrow>
          (case files w log_file of
             Some Directory \<Rightarrow> Some (Raise IsADirectoryError (''Is a directory: '' @ log_file))
           | _ \<Rightarrow> None))"

record data_logger =
  lg_name :: string
  lg_log_dir :: string
  lg_enable_colors :: bool

definition safe_symbol :: "world \<Rightarrow> string \<Rightarrow> string \<Rightarrow> string" where
  "safe_symbol w symbol fallback = (if windows w then fallback else symbol)"

datatype color = RESET | GREEN | YELLOW | RED | BLUE | CYAN

fun COLORS :: "color \<Rightarrow> string" where
  "COLORS RESET = CHR 0x1B # ''[0m''"
| "COLORS GREEN = CHR 0x1B # ''[92m''"
| "COLORS YELLOW = CHR 0x1B # ''[93m''"
| "COLORS RED = CHR 0x1B # ''[91m''"
| "COLORS BLUE = CHR 0x1B # ''[94m''"
| "COLORS CYAN = CHR 0x1B # ''[96m''"

definition setup_file_handler :: "data_logger \<Rightarrow> world \<Rightarrow> exn option \<times> world" where
  "setup_file_handler lg w =
     (case makedirs (lg_log_dir lg) w of
        (Some e, w1) \<Rightarrow> (Some e, w1)
      | (None, w1) \<Rightarrow>
     (case now w1 of
        (t, w2) \<Rightarrow>
     (let log_file = posix_join (lg_log_dir lg) (''data_download_'' @ strftime_Ymd t @ ''.log'') in
      case open_log_file log_file w2 of
        Some e \<Rightarrow> (Some e, w2)
      | None \<Rightarrow> (None, add_handler (lg_name lg) (FileHandler 10 log_file) w2))))"

definition DataLogger_init ::
  "string \<Rightarrow> string \<Rightarrow> bool \<Rightarrow> bool \<Rightarrow> world \<Rightarrow> (exn + data_logger) \<times> world" where
  "DataLogger_init name log_dir enable_file_logging enable_console_colors w =
     (let lg = \<lparr>lg_name = name, lg_log_dir = log_dir, lg_enable_colors = enable_console_colors\<rparr>;
          w1 = w\<lparr>logger_level := (logger_level w)(name := 10)\<rparr>;
          w2 = w1\<lparr>handlers := (handlers w1)(name := [])\<rparr>;
          w3 = add_handler name (StreamHandler 10) w2
      in if enable_file_logging
         then (case setup_file_handler lg w3 of
                 (Some e, w4) \<Rightarrow> (Inl e, w4)
               | (None, w4) \<Rightarrow> (Inr lg, w4))
         else (Inr lg, w3))"

definition colorize :: "data_logger \<Rightarrow> string \<Rightarrow> color \<Rightarrow> string" where
  "colorize lg message c =
     (if \<not> lg_enable_colors lg then message else COLORS c @ message @ COLORS RESET)"

text \<open>The symbols are the UTF-8 bytes of the check mark, warning sign, cross and gear.\<close>

definition info :: "data_logger \<Rightarrow> string \<Rightarrow> world \<Rightarrow> world" where
  "info lg message w =
     (let symbol = safe_symbol w [CHR 0xE2, CHR 0x9C, CHR 0x93] ''[OK]'' in
      log_emit (lg_name lg) INFO (colorize lg (symbol @ '' '' @ message) GREEN) w)"

definition success :: "data_logger \<Rightarrow> string \<Rightarrow> world \<Rightarrow> world" where
  "success lg message w =
     (let symbol = safe_symbol w [CHR 0xE2, CHR 0x9C, CHR 0x93] ''[OK]'' in
      log_emit (lg_name lg) INFO (colorize lg (symbol @ '' '' @ message) GREEN) w)"

definition warning :: "data_logger \<Rightarrow> string \<Rightarrow> world \<Rightarrow> world" where
  "warning lg message w =
     (let symbol = safe_symbol w [CHR 0xE2, CHR 0x9A, CHR 0xA0] ''[WARN]'' in
      log_emit (lg_name lg) WARNING (colorize lg (symbol @ '' '' @ message) YELLOW) w)"

definition error :: "data_logger \<Rightarrow> string \<Rightarrow> world \<Rightarrow> world" where
  "error lg message w =
     (let symbol = safe_symbol w [CHR 0xE2, CHR 0x9C, CHR 0x97] ''[ERR]'' in
      log_emit (lg_name lg) ERROR (colorize lg (symbol @ '' '' @ message) RED) w)"

definition debug :: "data_logger \<Rightarrow> string \<Rightarrow> world \<Rightarrow> world" where
  "debug lg message w =
     (let symbol = safe_symbol w [CHR 0xE2, CHR 0x9A, CHR 0x99] ''[DBG]'' in
      log_emit (lg_name lg) DEBUG (colorize lg (symbol @ '' '' @ message) CYAN) w)"

text \<open>
  The built-in \<open>print\<close>: it raises when the stream refuses the line, and otherwise
  the line is on standard output.
\<close>

definition print :: "string \<Rightarrow> world \<Rightarrow> exn option \<times> world" where
  "print line w =
     (case print_fault w line of
        Some e \<Rightarrow> (Some e, w)
      | None \<Rightarrow> (None, w\<lparr>stdout := stdout w @ [line]\<rparr>))"

definition separator :: "data_logger \<Rightarrow> world \<Rightarrow> exn option \<times> world" where
  "separator lg w = print (colorize lg (replicate 50 CHR ''-'') BLUE) w"

text \<open>
  \<open>setup_logging\<close> returns the logger of the \<open>logging\<close> module itself, here its name.
  It adds its two handlers to those the logger already has.
\<close>

definition setup_logging :: "string \<Rightarrow> string \<Rightarrow> nat \<Rightarrow> world \<Rightarrow> (exn + string) \<times> world" where
  "setup_logging name log_dir lv w =
     (let w1 = w\<lparr>logger_level := (logger_level w)(name := lv)\<rparr> in
      case makedirs log_dir w1 of
        (Some e, w2) \<Rightarrow> (Inl e, w2)
      | (None, w2) \<Rightarrow>
     (let w3 = add_handler name (StreamHandler lv) w2 in
      case now w3 of
        (t, w4) \<Rightarrow>
     (let log_file = posix_join log_dir (name @ ''_'' @ strftime_Ymd t @ ''.log'') in
      case open_log_file log_file w4 of
        Some e \<Rightarrow> (Inl e, w4)
      | None \<Rightarrow> (Inr name, add_handler name (FileHandler lv log_file) w4))))"

definition DownloadLogger_init :: "string \<Rightarrow> world \<Rightarrow> (exn + data_logger) \<times> world" where
  "DownloadLogger_init log_dir w = DataLogger_init ''download_logger'' log_dir True True w"

definition log_download_start ::
  "data_logger \<Rightarrow> string \<Rightarrow> string \<Rightarrow> string \<Rightarrow> world \<Rightarrow> world" where
  "log_download_start lg ticker period interval w =
     info lg (''Starting download: '' @ ticker @ '' (period='' @ period @ '', interval=''
              @ interval @ '')'') w"

definition log_download_complete ::
  "data_logger \<Rightarrow> string \<Rightarrow> nat \<Rightarrow> string \<Rightarrow> world \<Rightarrow> world" where
  "log_download_complete lg ticker rows filepath w =
     success lg (''Download complete: '' @ ticker @ '' - '' @ str_nat rows @ '' rows saved to ''
                 @ filepath) w"

definition log_download_error :: "data_logger \<Rightarrow> string \<Rightarrow> string \<Rightarrow> world \<Rightarrow> world" where
  "log_download_error lg ticker err w =
     error lg (''Download failed for '' @ ticker @ '': '' @ err) w"

fun join_comma :: "string list \<Rightarrow> string" where
  "join_comma [] = []"
| "join_comma [x] = x"
| "join_comma (x # y # ys) = x @ '', '' @ join_comma (y # ys)"

definition log_data_stats :: "data_logger \<Rightarrow> string \<Rightarrow> nat \<Rightarrow> string list \<Rightarrow> world \<Rightarrow> world" where
  "log_data_stats lg ticker rows cols w =
     debug lg (ticker @ '' | Rows: '' @ str_nat rows @ '' | Columns: '' @ join_comma cols) w"

section \<open>download\_data.py\<close>

record downloader =
  output_dir :: string
  logger :: "data_logger option"

definition StockDataDownloader_init ::
  "string \<Rightarrow> bool \<Rightarrow> world \<Rightarrow> (exn + downloader) \<times> world" where
  "StockDataDownloader_init out use_logging w =
     (if use_logging
      then (case DownloadLogger_init ''../logs'' w of
              (Inl e, w') \<Rightarrow> (Inl e, w')
            | (Inr lg, w') \<Rightarrow> (Inr \<lparr>output_dir = out, logger = Some lg\<rparr>, w'))
      else (Inr \<lparr>output_dir = out, logger = None\<rparr>, w))"

text \<open>\<open>if self.logger: self.logger.m(...)\<close>.\<close>

definition with_logger :: "downloader \<Rightarrow> (data_logger \<Rightarrow> world \<Rightarrow> world) \<Rightarrow> world \<Rightarrow> world" where
  "with_logger d m w = (case logger d of Some lg \<Rightarrow> m lg w | None \<Rightarrow> w)"

text \<open>The body of the \<open>try\<close> block of \<open>download_single_stock\<close>.\<close>

definition download_single_stock_try ::
  "downloader \<Rightarrow> string \<Rightarrow> string \<Rightarrow> string \<Rightarrow> string option \<Rightarrow> world
     \<Rightarrow> (exn + dataframe option) \<times> world" where
  "download_single_stock_try d ticker period interval filename w =
     (let w1 = with_logger d (\<lambda>lg. log_download_start lg ticker period interval) w in
      case remote w1 ticker period interval of
        Inl e \<Rightarrow> (Inl e, w1)
      | Inr df \<Rightarrow>
          if df_empty df
          then (Inr None, with_logger d (\<lambda>lg. warning lg (''No data found for '' @ ticker)) w1)
          else (case save_dataframe_to_csv df ticker period (output_dir d) filename w1 of
                  (Inl e, w2) \<Rightarrow> (Inl e, w2)
                | (Inr filepath, w2) \<Rightarrow>
                    (Inr (Some df),
                     with_logger d (\<lambda>lg w. log_data_stats lg ticker (df_len df) (column_names df)
                                              (log_download_complete lg ticker (df_len df) filepath w))
                       w2)))"

text \<open>
  The \<open>try\<close> block with its handler \<open>except Exception as e\<close>. The handler is not
  itself guarded: an exception of its \<open>print\<close> leaves the function.
\<close>

definition download_single_stock ::
  "downloader \<Rightarrow> string \<Rightarrow> string \<Rightarrow> string \<Rightarrow> string option \<Rightarrow> world
     \<Rightarrow> (exn + dataframe option) \<times> world" where
  "download_single_stock d ticker period interval filename w =
     (case download_single_stock_try d ticker period interval filename w of
        (Inl e, w') \<Rightarrow>
          (case logger d of
             Some lg \<Rightarrow> (Inr None, log_download_error lg ticker (exn_msg e) w')
           | None \<Rightarrow>
               (case print (''Error downloading '' @ ticker @ '': '' @ exn_msg e) w' of
                  (Some e', w'') \<Rightarrow> (Inl e', w'')
                | (None, w'') \<Rightarrow> (Inr None, w'')))
      | (Inr r, w') \<Rightarrow> (Inr r, w'))"

text \<open>\<open>if self.logger: self.logger.separator()\<close>, at the end of each round of the loop.\<close>

definition separator_step :: "downloader \<Rightarrow> world \<Rightarrow> exn option \<times> world" where
  "separator_step d w = (case logger d of Some lg \<Rightarrow> separator lg w | None \<Rightarrow> (None, w))"

text \<open>
  The \<open>for\<close> loop of \<open>download_multiple_stocks\<close>. \<open>results\<close> is the dictionary in
  insertion order; \<open>results[ticker] = df\<close> replaces the value of a key that is present
  and appends a new key otherwise. Nothing in the loop is inside a \<open>try\<close>: an exception
  of \<open>download_single_stock\<close> or of \<open>separator\<close> ends the batch.
\<close>

fun download_loop ::
  "downloader \<Rightarrow> string list \<Rightarrow> string \<Rightarrow> string \<Rightarrow> (string \<times> dataframe) list \<Rightarrow> world
     \<Rightarrow> (exn + (string \<times> dataframe) list) \<times> world" where
  "download_loop d [] period interval results w = (Inr results, w)"
| "download_loop d (ticker # tickers) period interval results w =
     (case download_single_stock d ticker period interval None w of
        (Inl e, w1) \<Rightarrow> (Inl e, w1)
      | (Inr df, w1) \<Rightarrow>
          (case separator_step d w1 of
             (Some e, w2) \<Rightarrow> (Inl e, w2)
           | (None, w2) \<Rightarrow>
               download_loop d tickers period interval
                 (case df of Some x \<Rightarrow> AList.update ticker x results | None \<Rightarrow> results)
                 w2))"

definition download_multiple_stocks ::
  "downloader \<Rightarrow> string list \<Rightarrow> string \<Rightarrow> string \<Rightarrow> bool \<Rightarrow> bool \<Rightarrow> world
     \<Rightarrow> (exn + (string \<times> dataframe) list) \<times> world" where
  "download_multiple_stocks d tickers period interval save_individual save_combined_excel w =
     (case download_loop d tickers period interval [] w of
        (Inl e, w1) \<Rightarrow> (Inl e, w1)
      | (Inr results, w1) \<Rightarrow>
          if save_combined_excel \<and> results \<noteq> []
          then (case save_multiple_stocks_to_excel results
                       (''combined_stocks_'' @ period @ ''.xlsx'') (output_dir d) w1 of
                  (Inr excel_path, w2) \<Rightarrow>
                    (Inr results,
                     with_logger d (\<lambda>lg. success lg (''Combined Excel saved to '' @ excel_path)) w2)
                | (Inl e, w2) \<Rightarrow>
                    (Inr results,
                     with_logger d (\<lambda>lg. error lg (''Failed to save combined Excel: '' @ exn_msg e)) w2))
          else (Inr results, w1))"

text \<open>
  The outcome of each ticker in a run of the loop that is not cut short by \<open>print\<close>,
  in order: what \<open>download_single_stock\<close> returned for it in the state the loop had
  reached. A ticker failed when the outcome is not a frame.
\<close>

fun ticker_outcomes ::
  "downloader \<Rightarrow> string list \<Rightarrow> string \<Rightarrow> string \<Rightarrow> world \<Rightarrow> (string \<times> dataframe option) list" where
  "ticker_outcomes d [] period interval w = []"
| "ticker_outcomes d (ticker # tickers) period interval w =
     (case download_single_stock d ticker period interval None w of
        (r, w1) \<Rightarrow>
          (ticker, case r of Inr (Some df) \<Rightarrow> Some df | _ \<Rightarrow> None)
            # ticker_outcomes d tickers period interval (snd (separator_step d w1)))"

definition failed_count ::
  "downloader \<Rightarrow> string list \<Rightarrow> string \<Rightarrow> string \<Rightarrow> world \<Rightarrow> nat" where
  "failed_count d tickers period interval w =
     length (filter (\<lambda>(t, r). r = None) (ticker_outcomes d tickers period interval w))"

definition succeeded ::
  "downloader \<Rightarrow> string list \<Rightarrow> string \<Rightarrow> string \<Rightarrow> world \<Rightarrow> string list" where
  "succeeded d tickers period interval w =
     map fst (filter (\<lambda>(t, r). r \<noteq> None) (ticker_outcomes d tickers period interval w))"

text \<open>
  A world for the closed theorems: the provider has two rows for every ticker except
  \<open>NONE\<close>, for which it has none, and \<open>BAD\<close>, for which the request raises; the
  clock reads 2024-01-15 09:30:05 and one second more at each later reading; no
  operation on the file system fails and standard output takes every line.
\<close>

definition frame0 :: dataframe where
  "frame0 =
     \<lparr>index_name = None, index_values = [''2024-01-02'', ''2024-01-03''],
      columns = [(''Open'', [''1.0'', ''2.0'']), (''Close'', [''1.5'', ''2.5''])]\<rparr>"

definition no_rows :: dataframe where
  "no_rows = \<lparr>index_name = None, index_values = [], columns = [(''Open'', []), (''Close'', [])]\<rparr>"

definition world0 :: world where
  "world0 =
     \<lparr>remote = (\<lambda>ticker period interval.
                  if ticker = ''NONE'' then Inr no_rows
                  else if ticker = ''BAD'' then Inl (Raise RemoteError ''connection refused'')
                  else Inr frame0),
      clock = (\<lambda>n. \<lparr>dt_year = 2024, dt_month = 1, dt_day = 15,
                     dt_hour = 9, dt_minute = 30, dt_second = 5 + n\<rparr>),
      mkdir_fault = (\<lambda>p. None),
      write_fault = (\<lambda>p. None),
      parse_csv = (\<lambda>text. Inl ''Error tokenizing data''),
      print_fault = (\<lambda>line. None),
      abspath = (\<lambda>p. p),
      windows = False,
      clock_reads = 0,
      files = Map.empty,
      handlers = (\<lambda>name. []),
      logger_level = (\<lambda>name. 30),
      console = [],
      logfiles = (\<lambda>p. []),
      stdout = []\<rparr>"

definition quiet :: downloader where
  "quiet = \<lparr>output_dir = ''data'', logger = None\<rparr>"

text \<open>The same world with standard output closed: every \<open>print\<close> raises.\<close>

definition world_closed :: world where
  "world_closed = world0\<lparr>print_fault := (\<lambda>line. Some (Raise OSError ''Broken pipe''))\<rparr>"

text \<open>
  The dictionary the loop builds from the outcomes of its tickers, starting from
  \<open>res\<close>.
\<close>

definition collect :: "(string \<times> dataframe) list \<Rightarrow> (string \<times> dataframe option) list \<Rightarrow> (string \<times> dataframe) list" where
  "collect res outs = foldl (\<lambda>acc (t, r). case r of Some df \<Rightarrow> AList.update t df acc | None \<Rightarrow> acc) res outs"

section \<open>Predicates and inputs of the properties\<close>

definition is_digit :: "char \<Rightarrow> bool" where
  "is_digit c = (c \<in> set ''0123456789'')"

definition digits :: "nat \<Rightarrow> string \<Rightarrow> bool" where
  "digits k s = (length s = k \<and> list_all is_digit s)"

text \<open>The shape \<open>YYYYMMDD_HHMMSS\<close>: eight digits, an underscore, six digits.\<close>

definition timestamp_shape :: "string \<Rightarrow> bool" where
  "timestamp_shape s =
     (digits 8 (take 8 s) \<and> take 1 (drop 8 s) = ''_'' \<and> digits 6 (drop 9 s))"

text \<open>
  Reading a timestamp back: the number a run of decimal digits writes, and the date and
  time whose fields are the numbers at the positions of \<open>YYYYMMDD_HHMMSS\<close>.
\<close>

definition digit_value :: "char \<Rightarrow> nat" where
  "digit_value c = length (takeWhile (\<lambda>x. x \<noteq> c) ''0123456789'')"

definition parse_nat :: "string \<Rightarrow> nat" where
  "parse_nat s = foldl (\<lambda>acc c. 10 * acc + digit_value c) 0 s"

definition parse_timestamp :: "string \<Rightarrow> datetime" where
  "parse_timestamp s =
     \<lparr>dt_year = parse_nat (take 4 s),
      dt_month = parse_nat (take 2 (drop 4 s)),
      dt_day = parse_nat (take 2 (drop 6 s)),
      dt_hour = parse_nat (take 2 (drop 9 s)),
      dt_minute = parse_nat (take 2 (drop 11 s)),
      dt_second = parse_nat (take 2 (drop 13 s))\<rparr>"

text \<open>
  The readings \<open>datetime.now()\<close> can give: a calendar date with a four-digit year
  (how \<open>%Y\<close> writes an earlier year depends on the platform) and a time of day.
\<close>

definition valid_datetime :: "datetime \<Rightarrow> bool" where
  "valid_datetime t =
     (1000 \<le> dt_year t \<and> dt_year t \<le> 9999 \<and> 1 \<le> dt_month t \<and> dt_month t \<le> 12
      \<and> 1 \<le> dt_day t \<and> dt_day t \<le> 31 \<and> dt_hour t < 24 \<and> dt_minute t < 60
      \<and> dt_second t < 60)"

definition raises :: "exn + 'a \<Rightarrow> exn_class \<Rightarrow> bool" where
  "raises r c = (case r of Inl e \<Rightarrow> exn_class_of e = c | Inr v \<Rightarrow> False)"

text \<open>
  The downloader with logging on, as \<open>StockDataDownloader(output_dir="data")\<close> builds
  it, and the world after building it in \<open>world0\<close>.
\<close>

definition loud :: downloader where
  "loud =
     \<lparr>output_dir = ''data'',
      logger = Some \<lparr>lg_name = ''download_logger'', lg_log_dir = ''../logs'',
                     lg_enable_colors = True\<rparr>\<rparr>"

definition world1 :: world where
  "world1 = snd (StockDataDownloader_init ''data'' True world0)"

text \<open>The world after \<open>save_dataframe_to_csv(frame0, "A", "1y", "data")\<close> ran in \<open>world0\<close>.\<close>

definition world2 :: world where
  "world2 = snd (save_dataframe_to_csv frame0 ''A'' ''1y'' ''data'' None world0)"

text \<open>
  The two oracles a download depends on: the answers of the remote service and the
  lines standard output refuses.
\<close>

definition oracles :: "world \<Rightarrow> (string \<Rightarrow> string \<Rightarrow> string \<Rightarrow> exn + dataframe) \<times> (string \<Rightarrow> exn option)" where
  "oracles w = (remote w, print_fault w)"

section \<open>Properties of utils/seeding.py\<close>


lemma try_pass_no_fault:
  "\<forall>s \<in> set ss. \<forall>r. fst (s r) = None \<Longrightarrow> try_pass ss r = foldl (\<lambda>r s. snd (s r)) r ss"
proof (induction ss arbitrary: r)
  case Nil
  then show ?case by simp
next
  case (Cons s ss)
  then have "fst (s r) = None" by simp
  then obtain r' where sr: "s r = (None, r')" by (cases "s r") auto
  with Cons show ?case by simp
qed

lemma set_random_seed_raises_iff:
  "(fst (set_random_seed seed r) = None) = (0 \<le> seed \<and> seed \<le> 2 ^ 32 - 1)"
  by (simp add: set_random_seed_def random_seed_def np_random_seed_def Let_def)

lemma set_random_seed_env:
  "0 \<le> seed \<Longrightarrow> seed \<le> 2 ^ 32 - 1 \<Longrightarrow>
   environ (snd (set_random_seed seed r)) ''PYTHONHASHSEED'' = Some (str_int seed)
   \<and> environ (snd (set_random_seed seed r)) ''TF_DETERMINISTIC_OPS'' = Some ''1''"
  by (simp add: set_random_seed_def random_seed_def np_random_seed_def Let_def set_env_def)

text \<open>
  C7, at the seed \<open>-1\<close>: \<open>np.random.seed\<close> is outside every \<open>try\<close> block, its
  \<open>ValueError\<close> leaves \<open>set_random_seed\<close>, and neither environment variable is set.
\<close>

theorem set_random_seed_negative_raises:
  "fst (set_random_seed (- 1) runtime0) =
     Some (Raise ValueError ''Seed must be between 0 and 2**32 - 1'')
   \<and> environ (snd (set_random_seed (- 1) runtime0)) ''PYTHONHASHSEED'' = None
   \<and> environ (snd (set_random_seed (- 1) runtime0)) ''TF_DETERMINISTIC_OPS'' = None"
  by (simp add: set_random_seed_def random_seed_def np_random_seed_def runtime0_def)

lemma get_experiment_seed_is_create:
  "get_experiment_seed m name r = create_experiment_seed m name r"
  by (simp add: get_experiment_seed_def create_experiment_seed_def Let_def)

lemma get_experiment_seed_same_value:
  "fst (get_experiment_seed (fst (snd (get_experiment_seed m name r))) name
          (snd (snd (get_experiment_seed m name r))))
   = fst (get_experiment_seed m name r)"
  by (simp add: get_experiment_seed_def create_experiment_seed_def Let_def)

text \<open>
  The stored value is never used: a lookup made after the base seed changed returns the
  new derivation and overwrites the entry.
\<close>

lemma get_experiment_seed_after_set_seed:
  "(case create_experiment_seed (fst (SeedManager_call None)) ''x'' runtime0 of
      (v1, m1, r1) \<Rightarrow>
        (case set_seed m1 100 r1 of
           (e, m2, r2) \<Rightarrow>
             (case get_experiment_seed m2 ''x'' r2 of
                (v2, m3, r3) \<Rightarrow>
                  v1 = 4 \<and> sm_experiment_seeds m2 ''x'' = Some 4 \<and> v2 = 5
                  \<and> sm_experiment_seeds m3 ''x'' = Some 5)))"
  by code_simp

text \<open>
  C4, at two lookups of \<open>x\<close> on a newly constructed manager: both return the same
  value, but the second one evaluates the hash again (two derivations, not one) although
  \<open>x\<close> is already stored.
\<close>

theorem get_experiment_seed_recomputes:
  "(case get_experiment_seed (fst (SeedManager_call None)) ''x'' runtime0 of
      (v1, m1, r1) \<Rightarrow>
        (case get_experiment_seed m1 ''x'' r1 of
           (v2, m2, r2) \<Rightarrow>
             sm_experiment_seeds m1 ''x'' = Some v1 \<and> v2 = v1
             \<and> hash_calls r1 = 1 \<and> hash_calls r2 = 2))"
  by (simp add: get_experiment_seed_def create_experiment_seed_def SeedManager_call_def
      SeedManager_init_def SeedManager_new_def runtime0_def Let_def)

text \<open>
  Constructing \<open>SeedManager()\<close> again runs \<open>__init__\<close> on the stored instance: the seed
  goes back to 42 and the mapping is emptied, and \<open>get_reproducible_config\<close> does so too.
\<close>

lemma SeedManager_call_reinitialises:
  "fst (SeedManager_call inst) = \<lparr>sm_seed = 42, sm_experiment_seeds = Map.empty\<rparr>
   \<and> snd (SeedManager_call inst) = Some \<lparr>sm_seed = 42, sm_experiment_seeds = Map.empty\<rparr>"
  by (cases inst) (simp_all add: SeedManager_call_def SeedManager_init_def SeedManager_new_def Let_def)

lemma get_reproducible_config_resets:
  "cfg_seed (fst (get_reproducible_config (Some \<lparr>sm_seed = 7, sm_experiment_seeds = Map.empty\<rparr>) runtime0)) = 42
   \<and> snd (get_reproducible_config (Some \<lparr>sm_seed = 7, sm_experiment_seeds = Map.empty\<rparr>) runtime0)
       = Some \<lparr>sm_seed = 42, sm_experiment_seeds = Map.empty\<rparr>"
  by (simp add: get_reproducible_config_def SeedManager_call_def SeedManager_init_def
      SeedManager_new_def get_seed_def Let_def)

text \<open>
  C3 as stated fails: \<open>create_experiment_seed\<close>, which is neither initialisation nor
  \<open>set_seed\<close> nor \<open>reset\<close>, writes the experiment-seed mapping.
\<close>

theorem create_experiment_seed_writes_mapping:
  "sm_experiment_seeds (fst (SeedManager_call None)) ''x'' = None
   \<and> sm_experiment_seeds
        (fst (snd (create_experiment_seed (fst (SeedManager_call None)) ''x'' runtime0))) ''x''
      = Some 4"
  by (simp add: create_experiment_seed_def SeedManager_call_def SeedManager_init_def
      SeedManager_new_def runtime0_def str_int_def str_nat.simps digit_char_def Let_def)

text \<open>
  C3 as amended: the active seed is written only by \<open>__init__\<close>, \<open>set_seed\<close> and
  \<open>reset\<close>; the mapping only by \<open>__init__\<close>, \<open>reset\<close> and the experiment-seed
  operations, which store the derived seed under the experiment's name and leave every
  other entry alone.
\<close>

theorem seed_state_writers:
  "sm_seed (SeedManager_init m) = 42
   \<and> sm_experiment_seeds (SeedManager_init m) = Map.empty
   \<and> sm_seed (fst (snd (set_seed m seed r))) = seed
   \<and> sm_experiment_seeds (fst (snd (set_seed m seed r))) = sm_experiment_seeds m
   \<and> sm_seed (fst (snd (reset m r))) = 42
   \<and> sm_experiment_seeds (fst (snd (reset m r))) = Map.empty
   \<and> sm_seed (fst (snd (create_experiment_seed m name r))) = sm_seed m
   \<and> sm_experiment_seeds (fst (snd (create_experiment_seed m name r))) =
       (sm_experiment_seeds m)(name := Some (fst (create_experiment_seed m name r)))
   \<and> sm_seed (fst (snd (get_experiment_seed m name r))) = sm_seed m
   \<and> sm_experiment_seeds (fst (snd (get_experiment_seed m name r))) =
       (sm_experiment_seeds m)(name := Some (fst (get_experiment_seed m name r)))
   \<and> get_seed m = sm_seed m"
  by (simp add: SeedManager_init_def set_seed_def reset_def create_experiment_seed_def
      get_experiment_seed_def get_seed_def Let_def split: prod.splits)

section \<open>Properties of utils/io.py: file names\<close>

lemma endswith_iff: "endswith s suf = (\<exists>pre. s = pre @ suf)"
proof
  assume "endswith s suf"
  then have "take (length (rev suf)) (rev s) = rev suf" by (simp add: endswith_def)
  then have "rev s = rev suf @ drop (length (rev suf)) (rev s)"
    by (metis append_take_drop_id)
  then have "s = rev (drop (length (rev suf)) (rev s)) @ suf"
    by (metis rev_append rev_rev_ident)
  then show "\<exists>pre. s = pre @ suf" ..
next
  assume "\<exists>pre. s = pre @ suf"
  then show "endswith s suf" by (auto simp: endswith_def)
qed

lemma digit_char_is_digit: "d < 10 \<Longrightarrow> is_digit (digit_char d)"
proof -
  assume "d < 10"
  then have "d < length ''0123456789''" by simp
  then have "''0123456789'' ! d \<in> set ''0123456789''" by (rule nth_mem)
  then show ?thesis by (simp only: is_digit_def digit_char_def)
qed

lemma str_nat_digits: "list_all is_digit (str_nat n)"
proof (induction n rule: str_nat.induct)
  case (1 n)
  show ?case
  proof (cases "n < 10")
    case True
    then show ?thesis by (subst str_nat.simps) (simp add: digit_char_is_digit)
  next
    case False
    have "n mod 10 < 10" by simp
    then have "is_digit (digit_char (n mod 10))" by (rule digit_char_is_digit)
    with False 1 show ?thesis by (subst str_nat.simps) simp
  qed
qed

lemma str_nat_length: "0 < k \<Longrightarrow> n < 10 ^ k \<Longrightarrow> length (str_nat n) \<le> k"
proof (induction k arbitrary: n)
  case 0
  then show ?case by simp
next
  case (Suc k)
  show ?case
  proof (cases "n < 10")
    case True
    then show ?thesis by (subst str_nat.simps) simp
  next
    case False
    then have "0 < k" using Suc.prems by (cases k) auto
    moreover have "n div 10 < 10 ^ k" using Suc.prems by (simp add: less_mult_imp_div_less mult.commute)
    ultimately have "length (str_nat (n div 10)) \<le> k" by (rule Suc.IH)
    with False show ?thesis by (subst str_nat.simps) simp
  qed
qed

lemma zfill_digits: "0 < k \<Longrightarrow> n < 10 ^ k \<Longrightarrow> digits k (zfill k (str_nat n))"
proof -
  assume "0 < k" and "n < 10 ^ k"
  then have "length (str_nat n) \<le> k" by (rule str_nat_length)
  moreover have "is_digit CHR ''0''" by (simp add: is_digit_def)
  moreover have "list_all is_digit (str_nat n)" by (rule str_nat_digits)
  ultimately show ?thesis
    by (auto simp: digits_def zfill_def list_all_iff)
qed

lemma digits_append: "digits a s \<Longrightarrow> digits b t \<Longrightarrow> digits (a + b) (s @ t)"
  by (simp add: digits_def)

lemma strftime_Ymd_digits:
  assumes "valid_datetime t"
  shows "digits 8 (strftime_Ymd t)"
proof -
  have y: "digits 4 (zfill 4 (str_nat (dt_year t)))"
    using assms by (intro zfill_digits) (simp_all add: valid_datetime_def)
  have m: "digits 2 (zfill 2 (str_nat (dt_month t)))"
    using assms by (intro zfill_digits) (simp_all add: valid_datetime_def)
  have d: "digits 2 (zfill 2 (str_nat (dt_day t)))"
    using assms by (intro zfill_digits) (simp_all add: valid_datetime_def)
  from digits_append[OF y digits_append[OF m d]] show ?thesis
    by (simp add: strftime_Ymd_def)
qed

lemma strftime_Ymd_HMS_shape:
  assumes "valid_datetime t"
  shows "timestamp_shape (strftime_Ymd_HMS t)"
proof -
  have ymd: "digits 8 (strftime_Ymd t)" using assms by (rule strftime_Ymd_digits)
  have h: "digits 2 (zfill 2 (str_nat (dt_hour t)))"
    using assms by (intro zfill_digits) (simp_all add: valid_datetime_def)
  have m: "digits 2 (zfill 2 (str_nat (dt_minute t)))"
    using assms by (intro zfill_digits) (simp_all add: valid_datetime_def)
  have s: "digits 2 (zfill 2 (str_nat (dt_second t)))"
    using assms by (intro zfill_digits) (simp_all add: valid_datetime_def)
  have hms: "digits 6 (zfill 2 (str_nat (dt_hour t)) @ zfill 2 (str_nat (dt_minute t))
                        @ zfill 2 (str_nat (dt_second t)))"
    using digits_append[OF h digits_append[OF m s]] by simp
  have len: "length (strftime_Ymd t) = 8" using ymd by (simp add: digits_def)
  show ?thesis
    using ymd hms len by (simp add: timestamp_shape_def strftime_Ymd_HMS_def)
qed

lemma digit_value_digit_char: "d < 10 \<Longrightarrow> digit_value (digit_char d) = d"
proof -
  assume "d < 10"
  then have "d = 0 \<or> d = 1 \<or> d = 2 \<or> d = 3 \<or> d = 4 \<or> d = 5 \<or> d = 6 \<or> d = 7
      \<or> d = 8 \<or> d = 9"
    by arith
  then show ?thesis
    by (auto simp: digit_value_def digit_char_def)
qed

lemma parse_nat_snoc: "parse_nat (s @ [c]) = 10 * parse_nat s + digit_value c"
  by (simp add: parse_nat_def)

lemma parse_nat_str_nat: "parse_nat (str_nat n) = n"
proof (induction n rule: str_nat.induct)
  case (1 n)
  show ?case
  proof (cases "n < 10")
    case True
    then show ?thesis
      by (subst str_nat.simps) (simp add: parse_nat_def digit_value_digit_char)
  next
    case False
    have "digit_value (digit_char (n mod 10)) = n mod 10"
      by (rule digit_value_digit_char) simp
    with False 1 show ?thesis
      by (subst str_nat.simps) (simp add: parse_nat_snoc)
  qed
qed

lemma foldl_zeros:
  "foldl (\<lambda>acc c. 10 * acc + digit_value c) 0 (replicate k CHR ''0'') = 0"
  by (induction k) (simp_all add: digit_value_def)

lemma parse_nat_zfill: "parse_nat (zfill k (str_nat n)) = n"
  using parse_nat_str_nat[of n] by (simp add: parse_nat_def zfill_def foldl_zeros)

text \<open>The fields read back from a timestamp are those of the date and time it was made of.\<close>

lemma parse_timestamp_strftime:
  assumes "valid_datetime t"
  shows "parse_timestamp (strftime_Ymd_HMS t) = t"
proof -
  let ?Y = "zfill 4 (str_nat (dt_year t))"
  let ?m = "zfill 2 (str_nat (dt_month t))"
  let ?d = "zfill 2 (str_nat (dt_day t))"
  let ?H = "zfill 2 (str_nat (dt_hour t))"
  let ?M = "zfill 2 (str_nat (dt_minute t))"
  let ?S = "zfill 2 (str_nat (dt_second t))"
  have lY: "length ?Y = 4"
    using assms zfill_digits[of 4 "dt_year t"] by (simp add: valid_datetime_def digits_def)
  have lm: "length ?m = 2"
    using assms zfill_digits[of 2 "dt_month t"] by (simp add: valid_datetime_def digits_def)
  have ld: "length ?d = 2"
    using assms zfill_digits[of 2 "dt_day t"] by (simp add: valid_datetime_def digits_def)
  have lH: "length ?H = 2"
    using assms zfill_digits[of 2 "dt_hour t"] by (simp add: valid_datetime_def digits_def)
  have lM: "length ?M = 2"
    using assms zfill_digits[of 2 "dt_minute t"] by (simp add: valid_datetime_def digits_def)
  have lS: "length ?S = 2"
    using assms zfill_digits[of 2 "dt_second t"] by (simp add: valid_datetime_def digits_def)
  have s: "strftime_Ymd_HMS t = ?Y @ ?m @ ?d @ ''_'' @ ?H @ ?M @ ?S"
    by (simp add: strftime_Ymd_HMS_def strftime_Ymd_def)
  have "take 4 (strftime_Ymd_HMS t) = ?Y"
    by (simp add: s lY)
  moreover have "take 2 (drop 4 (strftime_Ymd_HMS t)) = ?m"
    by (simp add: s lY lm)
  moreover have "take 2 (drop 6 (strftime_Ymd_HMS t)) = ?d"
    by (simp add: s lY lm ld)
  moreover have "take 2 (drop 9 (strftime_Ymd_HMS t)) = ?H"
    by (simp add: s lY lm ld lH)
  moreover have "take 2 (drop 11 (strftime_Ymd_HMS t)) = ?M"
    by (simp add: s lY lm ld lH lM)
  moreover have "take 2 (drop 13 (strftime_Ymd_HMS t)) = ?S"
    by (simp add: s lY lm ld lH lM lS)
  ultimately show ?thesis
    by (simp add: parse_timestamp_def parse_nat_zfill)
qed

text \<open>
  C5: a custom filename is returned with \<open>.csv\<close> appended exactly when it does not
  end in \<open>.csv\<close>, so the result always ends in \<open>.csv\<close>, and the clock is not read;
  without one the clock is read once and the result is
  \<open>{ticker}_{period}_{timestamp}.csv\<close>, where the timestamp has the shape
  \<open>YYYYMMDD_HHMMSS\<close> and its fields read back as the year, month, day, hour, minute
  and second of that reading, so that two different readings give two different
  timestamps.
\<close>

theorem generate_filename_spec:
  "fst (generate_filename ticker period (Some c) w) = (if endswith c ''.csv'' then c else c @ ''.csv'')
   \<and> snd (generate_filename ticker period (Some c) w) = w
   \<and> endswith (fst (generate_filename ticker period (Some c) w)) ''.csv''
   \<and> fst (generate_filename ticker period None w) =
       ticker @ ''_'' @ period @ ''_'' @ strftime_Ymd_HMS (clock w (clock_reads w)) @ ''.csv''
   \<and> clock_reads (snd (generate_filename ticker period None w)) = clock_reads w + 1
   \<and> (valid_datetime (clock w (clock_reads w)) \<longrightarrow>
        timestamp_shape (strftime_Ymd_HMS (clock w (clock_reads w)))
        \<and> parse_timestamp (strftime_Ymd_HMS (clock w (clock_reads w))) = clock w (clock_reads w))
   \<and> (valid_datetime t1 \<and> valid_datetime t2 \<and> t1 \<noteq> t2 \<longrightarrow>
        strftime_Ymd_HMS t1 \<noteq> strftime_Ymd_HMS t2)"
proof -
  have e: "endswith (c @ ''.csv'') ''.csv''" by (simp add: endswith_iff)
  have u: "strftime_Ymd_HMS t1 \<noteq> strftime_Ymd_HMS t2"
    if "valid_datetime t1 \<and> valid_datetime t2 \<and> t1 \<noteq> t2"
    using that parse_timestamp_strftime[of t1] parse_timestamp_strftime[of t2] by metis
  show ?thesis
    using e u
    by (simp add: generate_filename_def now_def strftime_Ymd_HMS_shape parse_timestamp_strftime)
qed

text \<open>
  C5 at the ticker \<open>AAPL\<close>, for two calls one after the other, the clock reading
  2024-01-15 09:30:05 and then 09:30:06.
\<close>

theorem generate_filename_spec_witness:
  "valid_datetime (clock world0 (clock_reads world0))
   \<and> fst (generate_filename ''AAPL'' ''1y'' None world0) = ''AAPL_1y_20240115_093005.csv''
   \<and> fst (generate_filename ''AAPL'' ''1y'' None (snd (generate_filename ''AAPL'' ''1y'' None world0)))
       = ''AAPL_1y_20240115_093006.csv''
   \<and> timestamp_shape ''20240115_093005''
   \<and> parse_timestamp ''20240115_093005''
       = \<lparr>dt_year = 2024, dt_month = 1, dt_day = 15, dt_hour = 9, dt_minute = 30, dt_second = 5\<rparr>
   \<and> valid_datetime (clock world0 1) \<and> clock world0 0 \<noteq> clock world0 1
   \<and> strftime_Ymd_HMS (clock world0 0) \<noteq> strftime_Ymd_HMS (clock world0 1)
   \<and> fst (generate_filename ''AAPL'' ''1y'' (Some ''prices'') world0) = ''prices.csv''
   \<and> fst (generate_filename ''AAPL'' ''1y'' (Some ''prices.csv'') world0) = ''prices.csv''"
proof -
  have r: "clock_reads world0 = 0" by (simp add: world0_def)
  have c0: "clock world0 0
      = \<lparr>dt_year = 2024, dt_month = 1, dt_day = 15, dt_hour = 9, dt_minute = 30, dt_second = 5\<rparr>"
    by (simp add: world0_def)
  have v0: "valid_datetime (clock world0 0)" by (simp add: valid_datetime_def world0_def)
  have v1: "valid_datetime (clock world0 1)" by (simp add: valid_datetime_def world0_def)
  have ne: "clock world0 0 \<noteq> clock world0 1" by (simp add: world0_def)
  have s: "strftime_Ymd_HMS (clock world0 0) = ''20240115_093005''" by code_simp
  have n2: "fst (generate_filename ''AAPL'' ''1y'' None (snd (generate_filename ''AAPL'' ''1y'' None world0)))
       = ''AAPL_1y_20240115_093006.csv''" by code_simp
  note t1 = generate_filename_spec[of "''AAPL''" "''1y''" "''prices''" world0
      "clock world0 0" "clock world0 1"]
  note t2 = generate_filename_spec[of "''AAPL''" "''1y''" "''prices.csv''" world0
      "clock world0 0" "clock world0 1"]
  from t1 have a: "fst (generate_filename ''AAPL'' ''1y'' (Some ''prices'') world0) = ''prices.csv''"
    by (simp add: endswith_def)
  from t2 have b: "fst (generate_filename ''AAPL'' ''1y'' (Some ''prices.csv'') world0) = ''prices.csv''"
    by (simp add: endswith_def)
  from t1 r s have n1: "fst (generate_filename ''AAPL'' ''1y'' None world0) = ''AAPL_1y_20240115_093005.csv''"
    by simp
  from t1 r v0 s have sh: "timestamp_shape ''20240115_093005''" by simp
  from t1 r v0 s c0 have pt: "parse_timestamp ''20240115_093005''
       = \<lparr>dt_year = 2024, dt_month = 1, dt_day = 15, dt_hour = 9, dt_minute = 30, dt_second = 5\<rparr>"
    by simp
  from t1 v0 v1 ne have d: "strftime_Ymd_HMS (clock world0 0) \<noteq> strftime_Ymd_HMS (clock world0 1)"
    by blast
  from r v0 n1 n2 sh pt v1 ne d a b show ?thesis by simp
qed

section \<open>Properties of download\_data.py\<close>

lemma foldl_handle_inv:
  assumes "\<And>w h. f (handle rec w h) = f w"
  shows "f (foldl (handle rec) w hs) = f w"
  using assms by (induction hs arbitrary: w) simp_all

lemma handle_fixed:
  "oracles (handle rec w h) = oracles w"
  "files (handle rec w h) = files w"
  "stdout (handle rec w h) = stdout w"
  by (simp_all add: handle_def oracles_def split: handler.splits)

lemma log_emit_fixed:
  "oracles (log_emit n l m w) = oracles w"
  "files (log_emit n l m w) = files w"
  "stdout (log_emit n l m w) = stdout w"
  by (simp_all add: log_emit_def foldl_handle_inv handle_fixed)

lemma oracles_eq:
  "oracles w' = oracles w \<Longrightarrow> remote w' = remote w \<and> print_fault w' = print_fault w"
  by (simp add: oracles_def)

lemma logger_oracles:
  "oracles (info lg m w) = oracles w"
  "oracles (success lg m w) = oracles w"
  "oracles (warning lg m w) = oracles w"
  "oracles (error lg m w) = oracles w"
  "oracles (debug lg m w) = oracles w"
  "oracles (log_download_start lg t p i w) = oracles w"
  "oracles (log_download_complete lg t n fp w) = oracles w"
  "oracles (log_download_error lg t e w) = oracles w"
  "oracles (log_data_stats lg t n cs w) = oracles w"
  by (simp_all add: info_def success_def warning_def error_def debug_def
      log_download_start_def log_download_complete_def log_download_error_def
      log_data_stats_def log_emit_fixed Let_def)

lemma print_oracles: "oracles (snd (print line w)) = oracles w"
  by (simp add: print_def oracles_def split: option.splits)

lemma print_oracles_pair: "print line w = (e, w') \<Longrightarrow> oracles w' = oracles w"
  using print_oracles[of line w] by simp

lemma separator_step_oracles: "oracles (snd (separator_step d w)) = oracles w"
  by (simp add: separator_step_def separator_def print_oracles split: option.splits)

lemma print_no_fault:
  "print_fault w = (\<lambda>line. None) \<Longrightarrow> fst (print line w) = None"
  by (simp add: print_def)

lemma print_no_fault_pair:
  "print_fault w = (\<lambda>line. None) \<Longrightarrow> print line w = (e, w') \<Longrightarrow> e = None"
  using print_no_fault[of w line] by simp

lemma separator_step_no_fault:
  "print_fault w = (\<lambda>line. None) \<Longrightarrow> fst (separator_step d w) = None"
  by (simp add: separator_step_def separator_def print_no_fault split: option.splits)

lemma with_logger_oracles:
  assumes "\<And>lg w. oracles (m lg w) = oracles w"
  shows "oracles (with_logger d m w) = oracles w"
  using assms by (simp add: with_logger_def split: option.splits)

lemma save_oracles:
  "save_dataframe_to_csv df t p out fn w = (r, w') \<Longrightarrow> oracles w' = oracles w"
  by (auto simp: save_dataframe_to_csv_def create_output_directory_def makedirs_def
      generate_filename_def now_def to_csv_def oracles_def Let_def
      split: option.splits prod.splits sum.splits node.splits if_splits)

lemma download_single_stock_try_oracles:
  assumes "download_single_stock_try d t p i fn w = (r, w')"
  shows "oracles w' = oracles w"
proof -
  let ?w1 = "with_logger d (\<lambda>lg. log_download_start lg t p i) w"
  have w1: "oracles ?w1 = oracles w"
    by (rule with_logger_oracles) (rule logger_oracles)
  show ?thesis
  proof (cases "remote ?w1 t p i")
    case (Inl e)
    with assms w1 show ?thesis
      by (simp add: download_single_stock_try_def Let_def)
  next
    case (Inr df)
    show ?thesis
    proof (cases "df_empty df")
      case True
      with assms Inr have "w' = with_logger d (\<lambda>lg. warning lg (''No data found for '' @ t)) ?w1"
        by (simp add: download_single_stock_try_def Let_def)
      then show ?thesis
        using w1 by (simp add: with_logger_oracles logger_oracles)
    next
      case False
      obtain sr w2 where sv: "save_dataframe_to_csv df t p (output_dir d) fn ?w1 = (sr, w2)"
        by (cases "save_dataframe_to_csv df t p (output_dir d) fn ?w1") auto
      then have w2: "oracles w2 = oracles w"
        using save_oracles w1 by metis
      show ?thesis
      proof (cases sr)
        case (Inl e)
        with assms Inr False sv w2 show ?thesis
          by (simp add: download_single_stock_try_def Let_def)
      next
        case (Inr filepath)
        with assms \<open>remote ?w1 t p i = Inr df\<close> False sv
        have "w' = with_logger d (\<lambda>lg w. log_data_stats lg t (df_len df) (column_names df)
                       (log_download_complete lg t (df_len df) filepath w)) w2"
          by (simp add: download_single_stock_try_def Let_def)
        then show ?thesis
          using w2 by (simp add: with_logger_oracles logger_oracles)
      qed
    qed
  qed
qed

lemma download_single_stock_oracles:
  assumes "download_single_stock d t p i fn w = (r, w')"
  shows "oracles w' = oracles w"
proof -
  obtain r1 w1 where tr: "download_single_stock_try d t p i fn w = (r1, w1)"
    by (cases "download_single_stock_try d t p i fn w") auto
  then have w1: "oracles w1 = oracles w"
    by (rule download_single_stock_try_oracles)
  with assms tr show ?thesis
    by (auto simp: download_single_stock_def logger_oracles dest: print_oracles_pair
        split: sum.splits option.splits prod.splits)
qed

text \<open>
  When standard output takes every line, \<open>download_single_stock\<close> returns: each
  exception of its \<open>try\<close> block is caught.
\<close>

lemma download_single_stock_returns:
  assumes "print_fault w = (\<lambda>line. None)"
  shows "\<exists>r w'. download_single_stock d t p i fn w = (Inr r, w')"
proof -
  obtain r1 w1 where tr: "download_single_stock_try d t p i fn w = (r1, w1)"
    by (cases "download_single_stock_try d t p i fn w") auto
  then have "oracles w1 = oracles w"
    by (rule download_single_stock_try_oracles)
  with assms have "print_fault w1 = (\<lambda>line. None)"
    by (simp add: oracles_def)
  with tr show ?thesis
    by (auto simp: download_single_stock_def dest: print_no_fault_pair
        split: sum.splits option.splits prod.splits)
qed

lemma logger_files:
  "files (info lg m w) = files w"
  "files (success lg m w) = files w"
  "files (warning lg m w) = files w"
  "files (error lg m w) = files w"
  "files (debug lg m w) = files w"
  "files (log_download_start lg t p i w) = files w"
  "files (log_download_complete lg t n fp w) = files w"
  "files (log_download_error lg t e w) = files w"
  "files (log_data_stats lg t n cs w) = files w"
  by (simp_all add: info_def success_def warning_def error_def debug_def
      log_download_start_def log_download_complete_def log_download_error_def
      log_data_stats_def log_emit_fixed Let_def)

lemma with_logger_files:
  assumes "\<And>lg w. files (m lg w) = files w"
  shows "files (with_logger d m w) = files w"
  using assms by (simp add: with_logger_def split: option.splits)

lemma download_single_stock_empty:
  assumes "remote w t p i = Inr df" and "df_empty df"
  shows "download_single_stock d t p i fn w =
           (Inr None,
            with_logger d (\<lambda>lg. warning lg (''No data found for '' @ t))
              (with_logger d (\<lambda>lg. log_download_start lg t p i) w))"
proof -
  let ?w1 = "with_logger d (\<lambda>lg. log_download_start lg t p i) w"
  have "oracles ?w1 = oracles w"
    by (rule with_logger_oracles) (rule logger_oracles)
  then have "remote ?w1 = remote w" by (simp add: oracles_def)
  with assms have "remote ?w1 t p i = Inr df" by simp
  with assms(2) show ?thesis
    by (simp add: download_single_stock_def download_single_stock_try_def Let_def)
qed

lemma download_loop_excludes:
  assumes "remote w t p i = Inr df" and "df_empty df" and "t \<notin> fst ` set res"
    and "download_loop d ts p i res w = (Inr res', w')"
  shows "t \<notin> fst ` set res'"
  using assms
proof (induction ts arbitrary: res w)
  case Nil
  then show ?case by simp
next
  case (Cons x ts)
  obtain r0 w1 where s0: "download_single_stock d x p i None w = (r0, w1)"
    by (cases "download_single_stock d x p i None w") auto
  obtain e w2 where sep: "separator_step d w1 = (e, w2)"
    by (cases "separator_step d w1") auto
  from Cons.prems(4) s0 obtain r where r0: "r0 = Inr r"
    by (cases r0) auto
  from Cons.prems(4) s0 r0 sep have e: "e = None"
    by (cases e) auto
  let ?res = "case r of Some y \<Rightarrow> AList.update x y res | None \<Rightarrow> res"
  have "oracles w1 = oracles w"
    using s0 by (rule download_single_stock_oracles)
  moreover have "oracles w2 = oracles w1"
    using separator_step_oracles[of d w1] sep by simp
  ultimately have "remote w2 = remote w" by (simp add: oracles_def)
  with Cons.prems(1) have rem2: "remote w2 t p i = Inr df" by simp
  have r_none: "r = None" if "x = t"
    using s0 r0 that download_single_stock_empty[OF Cons.prems(1,2), of d None] by simp
  have keys: "t \<notin> fst ` set ?res"
  proof (cases r)
    case None
    with Cons.prems(3) show ?thesis by simp
  next
    case (Some y)
    with r_none have "x \<noteq> t" by auto
    with Some Cons.prems(3) show ?thesis by (simp add: dom_update)
  qed
  have "download_loop d ts p i ?res w2 = (Inr res', w')"
    using Cons.prems(4) s0 r0 sep e by simp
  from Cons.IH[OF rem2 Cons.prems(2) keys this] show ?case .
qed

lemma download_loop_collect:
  assumes "print_fault w = (\<lambda>line. None)"
  shows "\<exists>w'. download_loop d ts p i res w = (Inr (collect res (ticker_outcomes d ts p i w)), w')"
  using assms
proof (induction ts arbitrary: res w)
  case Nil
  then show ?case by (simp add: collect_def)
next
  case (Cons x ts)
  obtain r w1 where s: "download_single_stock d x p i None w = (Inr r, w1)"
    using download_single_stock_returns[OF Cons.prems] by blast
  then have "oracles w1 = oracles w"
    by (rule download_single_stock_oracles)
  with Cons.prems have pf1: "print_fault w1 = (\<lambda>line. None)"
    by (simp add: oracles_def)
  obtain w2 where sep: "separator_step d w1 = (None, w2)"
    using separator_step_no_fault[OF pf1, of d] by (cases "separator_step d w1") auto
  have "oracles w2 = oracles w1"
    using separator_step_oracles[of d w1] sep by simp
  with pf1 have pf2: "print_fault w2 = (\<lambda>line. None)"
    by (simp add: oracles_def)
  show ?case
    using Cons.IH[OF pf2, of "case r of Some y \<Rightarrow> AList.update x y res | None \<Rightarrow> res"] s sep
    by (cases r) (auto simp: collect_def)
qed

lemma ticker_outcomes_keys: "map fst (ticker_outcomes d ts p i w) = ts"
  by (induction ts arbitrary: w) (auto split: prod.splits)

lemma collect_distinct:
  "distinct (map fst res) \<Longrightarrow> distinct (map fst (collect res outs))"
proof (induction outs arbitrary: res)
  case Nil
  then show ?case by (simp add: collect_def)
next
  case (Cons out outs)
  obtain t r where o: "out = (t, r)" by (cases out)
  show ?case
  proof (cases r)
    case None
    with Cons o show ?thesis by (simp add: collect_def)
  next
    case (Some df)
    have "distinct (map fst (AList.update t df res))"
      using Cons.prems by (rule distinct_update)
    from Cons.IH[OF this] Some o show ?thesis by (simp add: collect_def)
  qed
qed

lemma collect_keys:
  "fst ` set (collect res outs) = fst ` set res \<union> set (map fst (filter (\<lambda>(t, r). r \<noteq> None) outs))"
proof (induction outs arbitrary: res)
  case Nil
  then show ?case by (simp add: collect_def)
next
  case (Cons out outs)
  obtain t r where o: "out = (t, r)" by (cases out)
  show ?case
  proof (cases r)
    case None
    with Cons[of res] o show ?thesis by (simp add: collect_def)
  next
    case (Some df)
    with Cons[of "AList.update t df res"] o show ?thesis
      by (auto simp: collect_def dom_update)
  qed
qed

lemma collect_fresh:
  "distinct (map fst outs) \<Longrightarrow> fst ` set res \<inter> set (map fst outs) = {} \<Longrightarrow>
   map fst (collect res outs) = map fst res @ map fst (filter (\<lambda>(t, r). r \<noteq> None) outs)"
proof (induction outs arbitrary: res)
  case Nil
  then show ?case by (simp add: collect_def)
next
  case (Cons out outs)
  obtain t r where o: "out = (t, r)" by (cases out)
  show ?case
  proof (cases r)
    case None
    with Cons.IH[of res] Cons.prems o show ?thesis by (auto simp: collect_def)
  next
    case (Some df)
    have fresh: "t \<notin> fst ` set res" using Cons.prems(2) o by auto
    then have upd: "AList.update t df res = res @ [(t, df)]"
      by (induction res) auto
    have "fst ` set (res @ [(t, df)]) \<inter> set (map fst outs) = {}"
      using Cons.prems o by auto
    with Cons.IH[of "res @ [(t, df)]"] Cons.prems o Some upd show ?thesis
      by (auto simp: collect_def)
  qed
qed

lemma count_split:
  "length (filter (\<lambda>(t, r). r \<noteq> None) outs) + length (filter (\<lambda>(t, r). r = None) outs) = length outs"
  by (induction outs) auto

text \<open>
  A ticker succeeds exactly when the fetch returns a frame that is not empty and saving it
  does not raise; every other ticker fails.
\<close>

lemma download_single_stock_succeeds_iff:
  "(fst (download_single_stock d t p i fn w) = Inr (Some df)) =
   (remote w t p i = Inr df \<and> \<not> df_empty df
    \<and> (\<exists>filepath.
          fst (save_dataframe_to_csv df t p (output_dir d) fn
                 (with_logger d (\<lambda>lg. log_download_start lg t p i) w)) = Inr filepath))"
proof -
  let ?w1 = "with_logger d (\<lambda>lg. log_download_start lg t p i) w"
  have "oracles ?w1 = oracles w"
    by (rule with_logger_oracles) (rule logger_oracles)
  then have w1: "remote ?w1 = remote w" by (simp add: oracles_def)
  show ?thesis
  proof (cases "remote w t p i")
    case (Inl e)
    with w1 show ?thesis
      by (auto simp: download_single_stock_def download_single_stock_try_def Let_def
          split: option.splits prod.splits)
  next
    case (Inr df')
    with w1 have r: "remote ?w1 t p i = Inr df'" by simp
    show ?thesis
    proof (cases "df_empty df'")
      case True
      with r Inr show ?thesis
        by (auto simp: download_single_stock_def download_single_stock_try_def Let_def)
    next
      case False
      obtain sr w2 where sv: "save_dataframe_to_csv df' t p (output_dir d) fn ?w1 = (sr, w2)"
        by (cases "save_dataframe_to_csv df' t p (output_dir d) fn ?w1") auto
      with r Inr False show ?thesis
        by (cases sr)
          (auto simp: download_single_stock_def download_single_stock_try_def Let_def
            split: option.splits prod.splits)
    qed
  qed
qed

lemma download_multiple_stocks_fst:
  "download_loop d ts p i [] w = (Inr res, w1) \<Longrightarrow>
   \<exists>w'. download_multiple_stocks d ts p i si sce w = (Inr res, w')"
  by (simp add: download_multiple_stocks_def split: prod.splits sum.splits)

lemma download_multiple_stocks_loop:
  assumes "download_multiple_stocks d ts p i si sce w = (Inr res, w')"
  shows "\<exists>w1. download_loop d ts p i [] w = (Inr res, w1)"
proof -
  obtain r w1 where l: "download_loop d ts p i [] w = (r, w1)"
    by (cases "download_loop d ts p i [] w") auto
  with assms show ?thesis
    by (cases r) (auto simp: download_multiple_stocks_def split: prod.splits sum.splits if_splits)
qed

lemma download_multiple_stocks_total:
  assumes "print_fault w = (\<lambda>line. None)"
  shows "\<exists>results w'. download_multiple_stocks d tickers p i si sce w = (Inr results, w')"
  using download_loop_collect[OF assms, of d tickers p i "[]"] download_multiple_stocks_fst
  by blast

text \<open>
  With standard output closed the batch does not complete: without a logger the
  \<open>print\<close> of the exception handler raises at the first failing ticker, and with a
  logger \<open>separator\<close> raises after the first ticker.
\<close>

lemma print_failure_ends_batch:
  "fst (download_multiple_stocks quiet [''BAD'', ''A''] ''1y'' ''1d'' True False world_closed)
     = Inl (Raise OSError ''Broken pipe'')
   \<and> fst (download_multiple_stocks loud [''A'', ''B''] ''1y'' ''1d'' True False world_closed)
     = Inl (Raise OSError ''Broken pipe'')"
  by code_simp

text \<open>
  C1 as amended: when standard output takes every line printed, the batch call returns a
  dictionary and no exception leaves it; the keys of the dictionary are distinct and
  are exactly the tickers that succeeded; \<open>N - M\<close> tickers succeeded; and when the
  \<open>N\<close> tickers of the list are pairwise distinct the dictionary has exactly
  \<open>N - M\<close> entries, in the order of the list.
\<close>

theorem download_multiple_stocks_result:
  assumes "print_fault w = (\<lambda>line. None)"
  shows "\<exists>results w'.
      download_multiple_stocks d tickers p i si sce w = (Inr results, w')
      \<and> distinct (map fst results)
      \<and> set (map fst results) = set (succeeded d tickers p i w)
      \<and> length (succeeded d tickers p i w) = length tickers - failed_count d tickers p i w
      \<and> (distinct tickers \<longrightarrow>
            map fst results = succeeded d tickers p i w
            \<and> length results = length tickers - failed_count d tickers p i w)"
proof -
  let ?outs = "ticker_outcomes d tickers p i w"
  let ?res = "collect [] ?outs"
  obtain w1 where loop: "download_loop d tickers p i [] w = (Inr ?res, w1)"
    using download_loop_collect[OF assms] by blast
  then obtain w' where run: "download_multiple_stocks d tickers p i si sce w = (Inr ?res, w')"
    using download_multiple_stocks_fst by blast
  have len_outs: "length ?outs = length tickers"
    using ticker_outcomes_keys[of d tickers p i w] by (metis length_map)
  have dist: "distinct (map fst ?res)"
    by (rule collect_distinct) simp
  have keys: "set (map fst ?res) = set (succeeded d tickers p i w)"
    using collect_keys[of "[]" ?outs] by (simp add: succeeded_def)
  have count: "length (succeeded d tickers p i w) = length tickers - failed_count d tickers p i w"
    using count_split[of ?outs] len_outs by (simp add: succeeded_def failed_count_def)
  have ordered: "map fst ?res = succeeded d tickers p i w" if "distinct tickers"
    using that collect_fresh[of ?outs "[]"] ticker_outcomes_keys[of d tickers p i w]
    by (simp add: succeeded_def)
  have size: "length ?res = length tickers - failed_count d tickers p i w" if "distinct tickers"
    using ordered[OF that] count by (metis length_map)
  show ?thesis
    using run dist keys count ordered size by blast
qed

text \<open>
  C1 as amended, at three distinct tickers of which one has no data and one raises:
  one entry.
\<close>

theorem download_multiple_stocks_result_witness:
  "print_fault world0 = (\<lambda>line. None)
   \<and> distinct [''NONE'', ''BAD'', ''A'']
   \<and> failed_count quiet [''NONE'', ''BAD'', ''A''] ''1y'' ''1d'' world0 = 2
   \<and> succeeded quiet [''NONE'', ''BAD'', ''A''] ''1y'' ''1d'' world0 = [''A'']
   \<and> (\<exists>results w'.
         download_multiple_stocks quiet [''NONE'', ''BAD'', ''A''] ''1y'' ''1d'' True False world0
           = (Inr results, w')
         \<and> map fst results = [''A''] \<and> length results = 3 - 2)"
proof -
  have pf: "print_fault world0 = (\<lambda>line. None)" by (simp add: world0_def)
  have d: "distinct [''NONE'', ''BAD'', ''A'']" by simp
  have f: "failed_count quiet [''NONE'', ''BAD'', ''A''] ''1y'' ''1d'' world0 = 2"
    by code_simp
  have s: "succeeded quiet [''NONE'', ''BAD'', ''A''] ''1y'' ''1d'' world0 = [''A'']"
    by code_simp
  from download_multiple_stocks_result[OF pf, of quiet "[''NONE'', ''BAD'', ''A'']" "''1y''" "''1d''"
        True False]
  obtain results w' where
    run: "download_multiple_stocks quiet [''NONE'', ''BAD'', ''A''] ''1y'' ''1d'' True False world0
            = (Inr results, w')"
    and ord: "distinct [''NONE'', ''BAD'', ''A''] \<longrightarrow>
               map fst results = succeeded quiet [''NONE'', ''BAD'', ''A''] ''1y'' ''1d'' world0
               \<and> length results = length [''NONE'', ''BAD'', ''A'']
                    - failed_count quiet [''NONE'', ''BAD'', ''A''] ''1y'' ''1d'' world0"
    by blast
  from ord d f s have res: "map fst results = [''A''] \<and> length results = 3 - 2" by simp
  have "\<exists>results w'.
         download_multiple_stocks quiet [''NONE'', ''BAD'', ''A''] ''1y'' ''1d'' True False world0
           = (Inr results, w')
         \<and> map fst results = [''A''] \<and> length results = 3 - 2"
    by (intro exI[of _ results] exI[of _ w'] conjI) (use run res in simp_all)
  with pf d f s show ?thesis by simp
qed

text \<open>
  C1 as stated fails when a ticker is listed twice: two tickers, none fails, and the
  dictionary has one entry.
\<close>

theorem duplicate_tickers_counterexample:
  "fst (download_multiple_stocks quiet [''A'', ''A''] ''1y'' ''1d'' True False world0)
     = Inr [(''A'', frame0)]
   \<and> failed_count quiet [''A'', ''A''] ''1y'' ''1d'' world0 = 0
   \<and> length [(''A'', frame0)] \<noteq> length [''A'', ''A''] - 0"
  by code_simp

text \<open>
  C2 as amended: when the fetch succeeds with zero rows, \<open>download_single_stock\<close>
  returns \<open>None\<close> and does not raise, writes no file, calls the logger's
  \<open>warning\<close> (after the start message) when the downloader has a logger and does
  nothing at all when it has none, and the ticker is in no batch result.
\<close>

theorem download_single_stock_no_rows:
  assumes "remote w t p i = Inr df" and "index_values df = []"
  shows "fst (download_single_stock d t p i fn w) = Inr None
   \<and> files (snd (download_single_stock d t p i fn w)) = files w
   \<and> snd (download_single_stock d t p i fn w) =
       (case logger d of
          Some lg \<Rightarrow> warning lg (''No data found for '' @ t) (log_download_start lg t p i w)
        | None \<Rightarrow> w)
   \<and> (\<forall>tickers si sce results w'.
         download_multiple_stocks d tickers p i si sce w = (Inr results, w') \<longrightarrow>
         t \<notin> fst ` set results)"
proof -
  have e: "df_empty df" using assms(2) by (simp add: df_empty_def)
  note s = download_single_stock_empty[OF assms(1) e, of d fn]
  have a: "fst (download_single_stock d t p i fn w) = Inr None"
    using s by simp
  have b: "files (snd (download_single_stock d t p i fn w)) = files w"
    using s by (simp add: with_logger_files logger_files)
  have c: "snd (download_single_stock d t p i fn w) =
       (case logger d of
          Some lg \<Rightarrow> warning lg (''No data found for '' @ t) (log_download_start lg t p i w)
        | None \<Rightarrow> w)"
    using s by (simp add: with_logger_def split: option.splits)
  have x: "t \<notin> fst ` set results"
    if run: "download_multiple_stocks d tickers p i si sce w = (Inr results, w')"
    for tickers si sce results w'
  proof -
    obtain w1 where "download_loop d tickers p i [] w = (Inr results, w1)"
      using download_multiple_stocks_loop[OF run] by blast
    from download_loop_excludes[OF assms(1) e _ this] show ?thesis by simp
  qed
  show ?thesis using a b c x by blast
qed

lemma StockDataDownloader_init_loud:
  "fst (StockDataDownloader_init ''data'' True world0) = Inr loud"
  by code_simp

text \<open>
  C2 as amended, at the ticker \<open>NONE\<close> with logging on: the console receives the
  start message and then a record of level WARNING.
\<close>

theorem download_single_stock_no_rows_witness:
  "remote world1 ''NONE'' ''1y'' ''1d'' = Inr no_rows
   \<and> index_values no_rows = []
   \<and> fst (download_single_stock loud ''NONE'' ''1y'' ''1d'' None world1) = Inr None
   \<and> map lr_level (console (snd (download_single_stock loud ''NONE'' ''1y'' ''1d'' None world1)))
       = [INFO, WARNING]
   \<and> (\<exists>results w'.
         download_multiple_stocks loud [''A'', ''NONE''] ''1y'' ''1d'' True False world1
           = (Inr results, w')
         \<and> ''NONE'' \<notin> fst ` set results)"
proof -
  have r: "remote world1 ''NONE'' ''1y'' ''1d'' = Inr no_rows" by code_simp
  have e: "index_values no_rows = []" by (simp add: no_rows_def)
  have c: "map lr_level (console (snd (download_single_stock loud ''NONE'' ''1y'' ''1d'' None world1)))
       = [INFO, WARNING]" by code_simp
  note t = download_single_stock_no_rows[OF r e, of loud None]
  have b: "fst (download_multiple_stocks loud [''A'', ''NONE''] ''1y'' ''1d'' True False world1)
      = Inr [(''A'', frame0)]" by code_simp
  obtain results w' where run:
    "download_multiple_stocks loud [''A'', ''NONE''] ''1y'' ''1d'' True False world1 = (Inr results, w')"
    using b by (cases "download_multiple_stocks loud [''A'', ''NONE''] ''1y'' ''1d'' True False world1") auto
  with t have "''NONE'' \<notin> fst ` set results" by blast
  with r e c t run show ?thesis by blast
qed

text \<open>
  C2 as stated fails for a downloader built with \<open>use_logging=False\<close>: the fetch
  returns zero rows, the result is \<open>None\<close>, and nothing is logged or printed.
\<close>

theorem download_single_stock_quiet_counterexample:
  "remote world0 ''NONE'' ''1y'' ''1d'' = Inr no_rows
   \<and> index_values no_rows = []
   \<and> fst (download_single_stock quiet ''NONE'' ''1y'' ''1d'' None world0) = Inr None
   \<and> console (snd (download_single_stock quiet ''NONE'' ''1y'' ''1d'' None world0)) = []
   \<and> stdout (snd (download_single_stock quiet ''NONE'' ''1y'' ''1d'' None world0)) = []"
  by code_simp

section \<open>Properties of utils/io.py: files\<close>

lemma save_dataframe_to_csv_file:
  assumes "fst (save_dataframe_to_csv df t p out fn w) = Inr filepath"
  shows "files (snd (save_dataframe_to_csv df t p out fn w)) filepath =
           Some (CsvFile (if name_truthy (index_name df)
                          then (the (index_name df), index_values df) # columns df
                          else columns df))"
  using assms
  by (auto simp: save_dataframe_to_csv_def create_output_directory_def generate_filename_def
      to_csv_def reset_index_def name_truthy_def Let_def
      split: prod.splits sum.splits option.splits if_splits node.splits)

text \<open>
  C10: for a frame whose index has no name, the file \<open>save_dataframe_to_csv\<close>
  writes holds the columns of the frame only; the index values are not in it.
\<close>

theorem save_dataframe_to_csv_nameless_index:
  assumes "index_name df = None"
    and "fst (save_dataframe_to_csv df t p out fn w) = Inr filepath"
  shows "files (snd (save_dataframe_to_csv df t p out fn w)) filepath = Some (CsvFile (columns df))"
  using save_dataframe_to_csv_file[OF assms(2)] assms(1) by (simp add: name_truthy_def)

text \<open>C10 at a frame of two rows indexed by two dates: the dates are not in the file.\<close>

theorem save_dataframe_to_csv_nameless_index_witness:
  "index_name frame0 = None
   \<and> fst (save_dataframe_to_csv frame0 ''A'' ''1y'' ''data'' None world0)
       = Inr ''data/A_1y_20240115_093005.csv''
   \<and> files (snd (save_dataframe_to_csv frame0 ''A'' ''1y'' ''data'' None world0))
        ''data/A_1y_20240115_093005.csv''
       = Some (CsvFile [(''Open'', [''1.0'', ''2.0'']), (''Close'', [''1.5'', ''2.5''])])"
proof -
  have n: "index_name frame0 = None" by (simp add: frame0_def)
  have s: "fst (save_dataframe_to_csv frame0 ''A'' ''1y'' ''data'' None world0)
       = Inr ''data/A_1y_20240115_093005.csv''" by code_simp
  from save_dataframe_to_csv_nameless_index[OF n s] n s show ?thesis
    by (simp add: frame0_def)
qed

lemma read_csv_found:
  "path_exists w p \<Longrightarrow> \<not> raises (read_csv w p) FileNotFoundError"
  by (auto simp: path_exists_def read_csv_def raises_def frame_of_columns_def
      split: option.splits node.splits sum.splits list.splits)

text \<open>
  C8: \<open>load_csv_data\<close> and \<open>get_data_file_info\<close> raise
  \<open>FileNotFoundError\<close> exactly when the path does not exist; when it exists they
  read the file with \<open>pd.read_csv\<close>.
\<close>

theorem not_found_iff_missing:
  "raises (load_csv_data w p) FileNotFoundError = (\<not> path_exists w p)
   \<and> raises (get_data_file_info w p) FileNotFoundError = (\<not> path_exists w p)
   \<and> (path_exists w p \<longrightarrow>
        load_csv_data w p = read_csv w p
        \<and> get_data_file_info w p =
            (case read_csv w p of
               Inl e \<Rightarrow> Inl e
             | Inr df \<Rightarrow> Inr \<lparr>fi_filename = basename p, fi_filepath = p, fi_rows = df_len df,
                             fi_columns = length (columns df),
                             fi_column_names = column_names df\<rparr>))"
proof (cases "path_exists w p")
  case True
  from read_csv_found[OF True] have "\<not> raises (read_csv w p) FileNotFoundError" .
  with True show ?thesis
    by (auto simp: load_csv_data_def get_data_file_info_def raises_def split: sum.splits)
next
  case False
  then show ?thesis
    by (simp add: load_csv_data_def get_data_file_info_def raises_def)
qed

text \<open>C8 at a file that was saved and at a path that was not.\<close>

theorem not_found_iff_missing_witness:
  "path_exists world2 ''data/A_1y_20240115_093005.csv''
   \<and> \<not> raises (load_csv_data world2 ''data/A_1y_20240115_093005.csv'') FileNotFoundError
   \<and> load_csv_data world2 ''data/A_1y_20240115_093005.csv''
       = read_csv world2 ''data/A_1y_20240115_093005.csv''
   \<and> \<not> path_exists world2 ''data/missing.csv''
   \<and> raises (load_csv_data world2 ''data/missing.csv'') FileNotFoundError
   \<and> raises (get_data_file_info world2 ''data/missing.csv'') FileNotFoundError"
proof -
  have a: "path_exists world2 ''data/A_1y_20240115_093005.csv''" by code_simp
  have b: "\<not> path_exists world2 ''data/missing.csv''" by code_simp
  from a b not_found_iff_missing[of world2 "''data/A_1y_20240115_093005.csv''"]
    not_found_iff_missing[of world2 "''data/missing.csv''"]
  show ?thesis by blast
qed

section \<open>Properties of utils/logger.py\<close>

lemma posix_join_plain:
  "a \<noteq> [] \<Longrightarrow> \<not> endswith a ''/'' \<Longrightarrow> take 1 b \<noteq> ''/'' \<Longrightarrow> posix_join a b = a @ ''/'' @ b"
  by (simp add: posix_join_def)

lemma DataLogger_init_handlers:
  assumes "fst (DataLogger_init name log_dir True colors w) = Inr lg"
  shows "handlers (snd (DataLogger_init name log_dir True colors w)) name =
           [StreamHandler 10,
            FileHandler 10 (posix_join log_dir
               (''data_download_'' @ strftime_Ymd (clock w (clock_reads w)) @ ''.log''))]"
  using assms
  by (auto simp: DataLogger_init_def setup_file_handler_def makedirs_def now_def add_handler_def
      Let_def split: prod.splits option.splits node.splits if_splits)

lemma DataLogger_init_level:
  assumes "fst (DataLogger_init name log_dir True colors w) = Inr lg"
  shows "logger_level (snd (DataLogger_init name log_dir True colors w)) name = 10
         \<and> lg_name lg = name"
  using assms
  by (auto simp: DataLogger_init_def setup_file_handler_def makedirs_def now_def add_handler_def
      Let_def split: prod.splits option.splits node.splits if_splits)

lemma setup_logging_handlers:
  assumes "fst (setup_logging name log_dir lv w) = Inr x"
  shows "handlers (snd (setup_logging name log_dir lv w)) name =
           handlers w name @
           [StreamHandler lv,
            FileHandler lv (posix_join log_dir
               (name @ ''_'' @ strftime_Ymd (clock w (clock_reads w)) @ ''.log''))]"
  using assms
  by (auto simp: setup_logging_def makedirs_def now_def add_handler_def
      Let_def split: prod.splits option.splits node.splits if_splits)

lemma log_emit_appends:
  assumes "logger_level w name = 10" and "handlers w name = [StreamHandler 10, FileHandler 10 f]"
  shows "logfiles (log_emit name lv msg w) f =
           logfiles w f @ [\<lparr>lr_name = name, lr_level = lv, lr_message = msg\<rparr>]"
  using assms by (cases lv) (simp_all add: log_emit_def handle_def)

text \<open>
  C6 as amended: a \<open>DataLogger\<close> with file logging enabled appends to
  \<open>os.path.join(log_dir, "data_download_{YYYYMMDD}.log")\<close>, whatever its name;
  the logger of \<open>setup_logging\<close> to
  \<open>os.path.join(log_dir, "{name}_{YYYYMMDD}.log")\<close>; the date is that of the
  logger's construction; and the join is \<open>{log_dir}/{file}\<close> when \<open>log_dir\<close>
  is not empty and does not end in a slash (and the name does not begin with one).
\<close>

theorem log_file_path:
  "(fst (DataLogger_init name log_dir True colors w) = Inr lg \<longrightarrow>
      handlers (snd (DataLogger_init name log_dir True colors w)) name =
        [StreamHandler 10,
         FileHandler 10 (posix_join log_dir
            (''data_download_'' @ strftime_Ymd (clock w (clock_reads w)) @ ''.log''))]
      \<and> logfiles (log_emit name lv msg (snd (DataLogger_init name log_dir True colors w)))
           (posix_join log_dir
              (''data_download_'' @ strftime_Ymd (clock w (clock_reads w)) @ ''.log''))
         = logfiles (snd (DataLogger_init name log_dir True colors w))
             (posix_join log_dir
                (''data_download_'' @ strftime_Ymd (clock w (clock_reads w)) @ ''.log''))
           @ [\<lparr>lr_name = name, lr_level = lv, lr_message = msg\<rparr>])
   \<and> (fst (setup_logging name log_dir n w) = Inr x \<longrightarrow>
        handlers (snd (setup_logging name log_dir n w)) name =
          handlers w name @
          [StreamHandler n,
           FileHandler n (posix_join log_dir
              (name @ ''_'' @ strftime_Ymd (clock w (clock_reads w)) @ ''.log''))])
   \<and> (log_dir \<noteq> [] \<and> \<not> endswith log_dir ''/'' \<longrightarrow>
        posix_join log_dir (''data_download_'' @ day @ ''.log'')
          = log_dir @ ''/'' @ ''data_download_'' @ day @ ''.log'')
   \<and> (log_dir \<noteq> [] \<and> \<not> endswith log_dir ''/'' \<and> take 1 name \<noteq> ''/'' \<longrightarrow>
        posix_join log_dir (name @ ''_'' @ day @ ''.log'')
          = log_dir @ ''/'' @ name @ ''_'' @ day @ ''.log'')"
proof -
  have a: "handlers (snd (DataLogger_init name log_dir True colors w)) name =
        [StreamHandler 10,
         FileHandler 10 (posix_join log_dir
            (''data_download_'' @ strftime_Ymd (clock w (clock_reads w)) @ ''.log''))]"
    if "fst (DataLogger_init name log_dir True colors w) = Inr lg"
    using that by (rule DataLogger_init_handlers)
  have b: "logfiles (log_emit name lv msg (snd (DataLogger_init name log_dir True colors w)))
           (posix_join log_dir
              (''data_download_'' @ strftime_Ymd (clock w (clock_reads w)) @ ''.log''))
         = logfiles (snd (DataLogger_init name log_dir True colors w))
             (posix_join log_dir
                (''data_download_'' @ strftime_Ymd (clock w (clock_reads w)) @ ''.log''))
           @ [\<lparr>lr_name = name, lr_level = lv, lr_message = msg\<rparr>]"
    if ok: "fst (DataLogger_init name log_dir True colors w) = Inr lg"
    using log_emit_appends DataLogger_init_handlers[OF ok] DataLogger_init_level[OF ok] by blast
  have c: "handlers (snd (setup_logging name log_dir n w)) name =
          handlers w name @
          [StreamHandler n,
           FileHandler n (posix_join log_dir
              (name @ ''_'' @ strftime_Ymd (clock w (clock_reads w)) @ ''.log''))]"
    if "fst (setup_logging name log_dir n w) = Inr x"
    using that by (rule setup_logging_handlers)
  have d: "posix_join log_dir (''data_download_'' @ day @ ''.log'')
          = log_dir @ ''/'' @ ''data_download_'' @ day @ ''.log''"
    if "log_dir \<noteq> [] \<and> \<not> endswith log_dir ''/''"
    using that by (simp add: posix_join_def)
  have e: "posix_join log_dir (name @ ''_'' @ day @ ''.log'')
          = log_dir @ ''/'' @ name @ ''_'' @ day @ ''.log''"
    if "log_dir \<noteq> [] \<and> \<not> endswith log_dir ''/'' \<and> take 1 name \<noteq> ''/''"
    using that by (cases name) (simp_all add: posix_join_def)
  show ?thesis using a b c d e by blast
qed

text \<open>C6 as amended, for both kinds of logger set up on 2024-01-15 in \<open>../logs\<close>.\<close>

theorem log_file_path_witness:
  "fst (DataLogger_init ''download_logger'' ''../logs'' True True world0)
     = Inr \<lparr>lg_name = ''download_logger'', lg_log_dir = ''../logs'', lg_enable_colors = True\<rparr>
   \<and> handlers (snd (DataLogger_init ''download_logger'' ''../logs'' True True world0))
        ''download_logger''
       = [StreamHandler 10, FileHandler 10 ''../logs/data_download_20240115.log'']
   \<and> fst (setup_logging ''volatility_prediction'' ''../logs'' 20 world0)
       = Inr ''volatility_prediction''
   \<and> handlers (snd (setup_logging ''volatility_prediction'' ''../logs'' 20 world0))
        ''volatility_prediction''
       = [StreamHandler 20, FileHandler 20 ''../logs/volatility_prediction_20240115.log'']"
proof -
  have a: "fst (DataLogger_init ''download_logger'' ''../logs'' True True world0)
     = Inr \<lparr>lg_name = ''download_logger'', lg_log_dir = ''../logs'', lg_enable_colors = True\<rparr>"
    by code_simp
  have b: "fst (setup_logging ''volatility_prediction'' ''../logs'' 20 world0)
       = Inr ''volatility_prediction''"
    by code_simp
  have day: "strftime_Ymd (clock world0 (clock_reads world0)) = ''20240115''" by code_simp
  have dir: "''../logs'' \<noteq> [] \<and> \<not> endswith ''../logs'' ''/''" by code_simp
  have nm: "take 1 ''volatility_prediction'' \<noteq> ''/''" by simp
  have h0: "handlers world0 ''volatility_prediction'' = []" by (simp add: world0_def)
  note t1 = log_file_path[of "''download_logger''" "''../logs''" True world0 _ INFO "''m''"
      20 "''x''" "''20240115''"]
  note t2 = log_file_path[of "''volatility_prediction''" "''../logs''" True world0 _ INFO "''m''"
      20 "''volatility_prediction''" "''20240115''"]
  from t1 a day dir have h1:
    "handlers (snd (DataLogger_init ''download_logger'' ''../logs'' True True world0))
        ''download_logger''
       = [StreamHandler 10, FileHandler 10 ''../logs/data_download_20240115.log'']"
    by simp
  from t2 b day dir nm h0 have h2:
    "handlers (snd (setup_logging ''volatility_prediction'' ''../logs'' 20 world0))
        ''volatility_prediction''
       = [StreamHandler 20, FileHandler 20 ''../logs/volatility_prediction_20240115.log'']"
    by simp
  from a b h1 h2 show ?thesis by blast
qed

text \<open>
  C6 as stated fails for the logger named \<open>download_logger\<close>: its file is
  \<open>data_download_20240115.log\<close>, not \<open>download_logger_20240115.log\<close>.
\<close>

theorem DownloadLogger_file_counterexample:
  "handlers (snd (DownloadLogger_init ''../logs'' world0)) ''download_logger''
     = [StreamHandler 10, FileHandler 10 ''../logs/data_download_20240115.log'']
   \<and> ''../logs/data_download_20240115.log''
       \<noteq> ''../logs'' @ ''/'' @ ''download_logger'' @ ''_'' @ ''20240115'' @ ''.log''"
  by code_simp

end
